theory Spec2Isabelle
  imports Main
begin

section \<open>Python values, errors and the outside world\<close>

text \<open>
  The job builder of \<^verbatim>\<open>pywren_ibm_cloud/job/job.py\<close>, the compute dispatcher of
  \<^verbatim>\<open>pywren_ibm_cloud/compute/compute.py\<close> and the localhost handler of
  \<^verbatim>\<open>lithops/localhost/localhost.py\<close> are embedded as HOL functions. Byte strings
  and text are both \<open>string\<close>. A Python function object is known by its
  \<^verbatim>\<open>__name__\<close> and by what \<^verbatim>\<open>inspect.getsource\<close> gives for it
  (\<open>None\<close> when the source cannot be retrieved and \<^verbatim>\<open>getsource\<close> raises).
\<close>

type_synonym bytes = string

record pyfunc =
  func_name :: string
  func_source :: "string option"

datatype pyval =
    PNone
  | PBool bool
  | PInt int
  | PStr string
  | PList "pyval list"
  | PDict "(string \<times> pyval) list"
  | PFunc pyfunc
  | PObj string

text \<open>
  Exceptions are values. \<open>PyException\<close> is the plain \<^verbatim>\<open>Exception(log_msg)\<close> that
  \<^verbatim>\<open>_create_job\<close> raises itself; the other constructors are what the
  collaborators and the interpreter raise.
\<close>

datatype error =
    PyException string
  | IndexError
  | KeyError string
  | AttributeError string
  | OSError string
  | BdbQuit
  | External string

text \<open>
  Every effect on the outside world is an event; the state of a run is the list of the
  events performed so far, oldest first. Only an effect that completed is recorded.
\<close>

datatype event =
    PdbSetTrace
  | PutData string bytes
  | PutFunc string bytes
  | RmTree string
  | TempDirCreate string
  | TempDirCleanup string
  | CopyTree string string
  | Copy2 string string
  | OpenFile string string
  | WriteFile string string
  | BuildAndCreateRuntime string string
  | MakeDirs string
  | Popen string string

text \<open>
  The world decides, from the history, whether an attempted effect raises, and answers
  the queries the code makes (\<^verbatim>\<open>os.path.exists\<close>, \<^verbatim>\<open>os.path.isdir\<close>,
  \<^verbatim>\<open>time.time\<close>, \<^verbatim>\<open>os.getenv\<close>, the user id printed by \<^verbatim>\<open>id -u $USER\<close>).
  Time stamps are whole microseconds, so that \<^verbatim>\<open>round(t, 6)\<close> changes nothing.
\<close>

record world =
  fails :: "event list \<Rightarrow> event \<Rightarrow> error option"
  path_exists :: "event list \<Rightarrow> string \<Rightarrow> bool"
  path_isdir :: "event list \<Rightarrow> string \<Rightarrow> bool"
  time_time :: "event list \<Rightarrow> int"
  getenv :: "string \<Rightarrow> string option"
  id_u :: "event list \<Rightarrow> error + int"

definition perform :: "world \<Rightarrow> event \<Rightarrow> event list \<Rightarrow> (error + unit) \<times> event list" where
  "perform w e tr = (case fails w tr e of Some err \<Rightarrow> (Inl err, tr) | None \<Rightarrow> (Inr (), tr @ [e]))"

section \<open>The reduce grouping of create_reduce_job\<close>

text \<open>
  \<^verbatim>\<open>map_futures[a:b]\<close> for indices \<open>0 \<le> a \<le> b\<close>: Python clamps both ends to the
  length of the list.
\<close>

definition py_slice :: "'a list \<Rightarrow> nat \<Rightarrow> nat \<Rightarrow> 'a list" where
  "py_slice xs a b = take (b - a) (drop a xs)"

text \<open>
  The loop of lines 93-95: \<open>prev\<close> is \<^verbatim>\<open>prev_total_partitons\<close>, the list the
  remaining entries of \<^verbatim>\<open>map_job['parts_per_object']\<close>. The entries are partition
  counts, hence natural numbers. Each element appended is the one-argument list
  \<^verbatim>\<open>[map_futures[prev:prev+total_partitions]]\<close>.
\<close>

fun group_futures :: "nat \<Rightarrow> nat list \<Rightarrow> 'a list \<Rightarrow> 'a list list" where
  "group_futures prev [] map_futures = []"
| "group_futures prev (total_partitions # rest) map_futures =
     py_slice map_futures prev (prev + total_partitions)
       # group_futures (prev + total_partitions) rest map_futures"

text \<open>
  Lines 88-95: the input of the reduce calls. \<open>parts_per_object\<close> is \<open>None\<close> when the
  map job's descriptor has no such key.
\<close>

definition reduce_iterdata :: "nat list option \<Rightarrow> bool \<Rightarrow> pyval list \<Rightarrow> pyval list" where
  "reduce_iterdata parts_per_object reducer_one_per_object map_futures =
     (case parts_per_object of
        Some parts \<Rightarrow>
          if reducer_one_per_object
          then map (\<lambda>g. PList [PList g]) (group_futures 0 parts map_futures)
          else [PList [PList map_futures]]
      | None \<Rightarrow> [PList [PList map_futures]])"

section \<open>Sequencing effects\<close>

text \<open>
  A computation takes the history and returns its result, an exception or a value,
  with the history as it stands then. \<open>then_do\<close> runs the second computation only
  when the first returned; an exception ends the run with the history reached.
\<close>

type_synonym 'a io = "event list \<Rightarrow> (error + 'a) \<times> event list"

definition return :: "'a \<Rightarrow> 'a io" where
  "return x tr = (Inr x, tr)"

definition raise :: "error \<Rightarrow> 'a io" where
  "raise e tr = (Inl e, tr)"

definition lift :: "error + 'a \<Rightarrow> 'a io" where
  "lift r tr = (r, tr)"

definition then_do :: "'a io \<Rightarrow> ('a \<Rightarrow> 'b io) \<Rightarrow> 'b io" where
  "then_do m f tr = (case m tr of (Inl e, tr') \<Rightarrow> (Inl e, tr') | (Inr x, tr') \<Rightarrow> f x tr')"

section \<open>Configuration, collaborators and the job descriptor\<close>

text \<open>
  \<^verbatim>\<open>config['pywren']\<close>, as far as \<^verbatim>\<open>_create_job\<close> reads it. The keys read with
  \<^verbatim>\<open>[...]\<close> are always present in a loaded configuration. \<open>pw_data_limit\<close> is \<open>None\<close>
  when the key \<^verbatim>\<open>data_limit\<close> is absent; \<^verbatim>\<open>False\<close> is the integer 0.
  \<open>pw_exclude_modules\<close> and \<open>pw_include_modules\<close> are what
  \<^verbatim>\<open>.get('exclude_modules', [])\<close> and \<^verbatim>\<open>.get('include_modules', [])\<close> return:
  \<open>None\<close> is Python's \<^verbatim>\<open>None\<close>, an absent key gives \<open>Some []\<close>.
\<close>

record pywren_config =
  pw_runtime :: string
  pw_runtime_memory :: int
  pw_runtime_timeout :: int
  pw_data_limit :: "int option"
  pw_exclude_modules :: "string list option"
  pw_include_modules :: "string list option"

text \<open>
  The constants and helpers that \<^verbatim>\<open>job.py\<close> imports and that are not among the
  sources are parameters: \<^verbatim>\<open>MAX_AGG_DATA_SIZE\<close> and \<^verbatim>\<open>JOBS_PREFIX\<close> of
  \<^verbatim>\<open>pywren_ibm_cloud.config\<close>, the key builders of \<^verbatim>\<open>storage.utils\<close>,
  \<^verbatim>\<open>convert_bools_to_string\<close> and \<^verbatim>\<open>sizeof_fmt\<close> of \<^verbatim>\<open>utils\<close>,
  \<^verbatim>\<open>create_module_data\<close>, and of the standard library \<^verbatim>\<open>pickle.dumps\<close> on
  the pair of function body and module data and \<^verbatim>\<open>hashlib.md5(...).hexdigest()\<close>.
  \<open>cloudpickle_dumps\<close> pickles one object, \<open>resolve_modules\<close> is the dependency
  analysis of the serializer (preinstalled modules, the objects, include and exclude
  sets), and \<open>bind_args\<close> binds one element of the iterable to the parameters of the
  function.
\<close>

record pylib =
  MAX_AGG_DATA_SIZE :: int
  JOBS_PREFIX :: string
  create_agg_data_key :: "string \<Rightarrow> string \<Rightarrow> string \<Rightarrow> string"
  create_func_key :: "string \<Rightarrow> string \<Rightarrow> string \<Rightarrow> string"
  convert_bools_to_string :: "(string \<times> pyval) list \<Rightarrow> (string \<times> pyval) list"
  sizeof_fmt :: "int \<Rightarrow> string"
  cloudpickle_dumps :: "pyval \<Rightarrow> error + bytes"
  resolve_modules ::
    "string list \<Rightarrow> pyval list \<Rightarrow> string set option \<Rightarrow> string set \<Rightarrow> error + string list"
  create_module_data :: "string list \<Rightarrow> error + pyval"
  pickle_dumps :: "bytes \<Rightarrow> pyval \<Rightarrow> bytes"
  md5_hexdigest :: "string \<Rightarrow> string"
  bind_args :: "pyfunc \<Rightarrow> pyval \<Rightarrow> error + pyval"

text \<open>
  The dictionaries \<^verbatim>\<open>host_job_meta\<close> and \<^verbatim>\<open>job_description\<close>. A field that
  \<^verbatim>\<open>_create_job\<close> sets only late (\<^verbatim>\<open>data_key\<close>, \<^verbatim>\<open>data_ranges\<close>,
  \<^verbatim>\<open>func_key\<close>, \<^verbatim>\<open>metadata\<close>) is \<open>None\<close> while the key is absent; so is
  \<^verbatim>\<open>parts_per_object\<close>, which \<^verbatim>\<open>create_map_job\<close> adds to the description of a
  map job over partitioned objects and \<^verbatim>\<open>create_reduce_job\<close> reads.
\<close>

record host_job_meta =
  job_created_tstamp :: "int option"
  data_size_bytes :: nat
  func_module_size_bytes :: nat
  data_upload_time :: int
  func_upload_time :: int

record job_description =
  runtime_name :: string
  runtime_memory :: int
  execution_timeout :: int
  function_name :: string
  extra_env :: "(string \<times> pyval) list"
  total_calls :: nat
  invoke_pool_threads :: int
  executor_id :: string
  job_id :: string
  data_key :: "string option"
  data_ranges :: "(nat \<times> nat) list option"
  func_key :: "string option"
  metadata :: "host_job_meta option"
  parts_per_object :: "nat list option"

text \<open>What \<^verbatim>\<open>_create_job\<close> returns: the empty list, or a job description.\<close>

datatype created = EmptyResult | Descriptor job_description

section \<open>Helpers of job.py that are not among the sources\<close>

fun map_result :: "('a \<Rightarrow> error + 'b) \<Rightarrow> 'a list \<Rightarrow> error + 'b list" where
  "map_result f [] = Inr []"
| "map_result f (x # xs) =
     (case f x of
        Inl e \<Rightarrow> Inl e
      | Inr y \<Rightarrow> (case map_result f xs of Inl e \<Rightarrow> Inl e | Inr ys \<Rightarrow> Inr (y # ys)))"

text \<open>
  Modelled from the spec: \<^verbatim>\<open>SerializeIndependent.__call__\<close> of
  \<^verbatim>\<open>pywren_ibm_cloud/job/serialize.py\<close>, which is not among the sources. The spec
  (4.2): it produces "the serialized function body, one serialized blob per call
  argument, and the set of resolved dependency module paths that are not already
  preinstalled", and a dependency that cannot be resolved "surfaces a resolution error".
  The objects are pickled one by one, in order.
\<close>

definition serializer ::
  "pylib \<Rightarrow> string list \<Rightarrow> pyval list \<Rightarrow> string set option \<Rightarrow> string set
     \<Rightarrow> error + (bytes list \<times> string list)" where
  "serializer lib preinstalls list_of_objs inc_modules exc_modules =
     (case map_result (cloudpickle_dumps lib) list_of_objs of
        Inl e \<Rightarrow> Inl e
      | Inr strs \<Rightarrow>
          (case resolve_modules lib preinstalls list_of_objs inc_modules exc_modules of
             Inl e \<Rightarrow> Inl e
           | Inr mod_paths \<Rightarrow> Inr (strs, mod_paths)))"

text \<open>
  Modelled from the spec: \<^verbatim>\<open>utils.agg_data\<close>, which is not among the sources. The
  spec (3, 4.3): "one contiguous byte buffer plus an ordered list of (offset, length)
  ranges, one per call, in the same order as the input iterable".
\<close>

fun agg_ranges :: "nat \<Rightarrow> bytes list \<Rightarrow> (nat \<times> nat) list" where
  "agg_ranges pos [] = []"
| "agg_ranges pos (datum # data_strs) =
     (pos, length datum) # agg_ranges (pos + length datum) data_strs"

definition agg_data :: "bytes list \<Rightarrow> bytes \<times> (nat \<times> nat) list" where
  "agg_data data_strs = (concat data_strs, agg_ranges 0 data_strs)"

text \<open>
  Modelled from the spec: \<^verbatim>\<open>utils.verify_args\<close>, which is not among the sources. The
  spec (4.4 b): "validate and normalize arguments (argument count/signature must match
  the function's declared parameters - mismatch fails immediately)". Every element of
  the iterable is bound to the parameters of the function, in order; the extra
  arguments play no part in the calls modelled here, which pass \<^verbatim>\<open>None\<close>.
\<close>

definition verify_args :: "pylib \<Rightarrow> pyfunc \<Rightarrow> pyval list \<Rightarrow> error + pyval list" where
  "verify_args lib func iterdata = map_result (bind_args lib func) iterdata"

section \<open>job.py\<close>

text \<open>
  Lines 161-177 of \<^verbatim>\<open>_create_job\<close>: the exclude and include sets handed to the
  serializer, statement by statement. A list is true when it is neither \<^verbatim>\<open>None\<close>
  nor empty. The include set is \<open>None\<close> when the code sets \<^verbatim>\<open>inc_modules = None\<close>.
  Line 175 updates the include set only when \<^verbatim>\<open>include_modules\<close> is not empty, and
  then line 173 has not set it to \<^verbatim>\<open>None\<close>: the update always finds a set.
\<close>

fun truthy :: "'a list option \<Rightarrow> bool" where
  "truthy None = False"
| "truthy (Some xs) = (xs \<noteq> [])"

definition items :: "'a list option \<Rightarrow> 'a set" where
  "items l = (case l of None \<Rightarrow> {} | Some xs \<Rightarrow> set xs)"

definition job_modules ::
  "string list option \<Rightarrow> string list option \<Rightarrow> string list option \<Rightarrow> string list option
     \<Rightarrow> string set \<times> string set option" where
  "job_modules exclude_modules_cfg include_modules_cfg exclude_modules include_modules =
     (let exc_modules = {};
          inc_modules = Some {};
          exc_modules = (if truthy exclude_modules_cfg
                         then exc_modules \<union> items exclude_modules_cfg else exc_modules);
          exc_modules = (if truthy exclude_modules
                         then exc_modules \<union> items exclude_modules else exc_modules);
          inc_modules = (if include_modules_cfg \<noteq> None
                         then Some (items include_modules_cfg) else inc_modules);
          inc_modules = (if include_modules_cfg = None \<and> \<not> truthy include_modules
                         then None else inc_modules);
          inc_modules = (if include_modules \<noteq> None \<and> truthy include_modules
                         then Some ((case inc_modules of None \<Rightarrow> {} | Some s \<Rightarrow> s)
                                      \<union> items include_modules)
                         else inc_modules);
          inc_modules = (if include_modules = None then None else inc_modules)
      in (exc_modules, inc_modules))"

text \<open>\<^verbatim>\<open>os.path.basename\<close> of \<^verbatim>\<open>posixpath\<close>: what follows the last slash.\<close>

definition basename :: "string \<Rightarrow> string" where
  "basename p = rev (takeWhile (\<lambda>c. c \<noteq> CHR ''/'') (rev p))"

definition MOD_PATH :: string where
  "MOD_PATH = ''ext_mod_path''"

text \<open>The loop of lines 260-264 over \<^verbatim>\<open>mod_paths\<close>.\<close>

fun copy_modules :: "world \<Rightarrow> string list \<Rightarrow> unit io" where
  "copy_modules w [] = return ()"
| "copy_modules w (module # mod_paths) =
     (\<lambda>tr. then_do
        (if path_isdir w tr module
         then perform w (CopyTree module (MOD_PATH @ ''/'' @ basename module))
         else perform w (Copy2 module MOD_PATH))
        (\<lambda>_. copy_modules w mod_paths) tr)"

text \<open>
  \<^verbatim>\<open>with open(name, 'w') as f: f.write(text)\<close>: the file is opened (created or
  truncated), then written.
\<close>

definition write_file :: "world \<Rightarrow> string \<Rightarrow> string \<Rightarrow> unit io" where
  "write_file w name content =
     then_do (perform w (OpenFile name ''w'')) (\<lambda>_. perform w (WriteFile name content))"

text \<open>\<^verbatim>\<open>inspect.getsource(func)\<close>.\<close>

definition getsource :: "pyfunc \<Rightarrow> string io" where
  "getsource func =
     (case func_source func of
        None \<Rightarrow> raise (OSError ''could not get source code'')
      | Some src \<Rightarrow> return src)"

text \<open>
  The body of the \<^verbatim>\<open>with tempfile.TemporaryDirectory(MOD_PATH)\<close> block, lines
  260-276.
\<close>

definition stage_files :: "world \<Rightarrow> pyfunc \<Rightarrow> string list \<Rightarrow> string \<Rightarrow> string \<Rightarrow> string \<Rightarrow> unit io" where
  "stage_files w func mod_paths func_file_name base_docker_image ext_docker_file =
     then_do (copy_modules w mod_paths) (\<lambda>_.
     then_do (getsource func) (\<lambda>source.
     then_do (write_file w (MOD_PATH @ ''/'' @ func_file_name @ ''.py'') source) (\<lambda>_.
       write_file w ext_docker_file
         (''FROM '' @ base_docker_image @ [CHR 0x0A]
            @ ''ENV PYTHONPATH='' @ MOD_PATH @ '':$'' @ ''PYTHONPATH'' @ [CHR 0x0A]
            @ ''COPY '' @ MOD_PATH @ '' '' @ MOD_PATH))))"

text \<open>
  The \<^verbatim>\<open>with\<close> statement around it: the temporary directory is created, the body
  runs, and the directory is cleaned up whether the body returned or raised; an
  exception of the body is raised again after the cleanup.
\<close>

definition with_temporary_directory :: "world \<Rightarrow> string \<Rightarrow> unit io \<Rightarrow> unit io" where
  "with_temporary_directory w suffix body =
     then_do (perform w (TempDirCreate suffix)) (\<lambda>_ tr.
       case body tr of
         (Inl e, tr') \<Rightarrow> then_do (perform w (TempDirCleanup suffix)) (\<lambda>_. raise e) tr'
       | (Inr _, tr') \<Rightarrow> perform w (TempDirCleanup suffix) tr')"

text \<open>
  \<^verbatim>\<open>_inject_in_runtime_docker_image(job_description, func, mod_paths)\<close>, lines
  239-289. It returns \<^verbatim>\<open>func_file_name\<close>; the description it mutates is returned
  with it. \<^verbatim>\<open>pdb.set_trace()\<close> stops in the debugger: the run goes on when the
  operator continues and ends with \<^verbatim>\<open>BdbQuit\<close> when the operator quits.
\<close>

definition inject_in_runtime_docker_image ::
  "pylib \<Rightarrow> world \<Rightarrow> job_description \<Rightarrow> pyfunc \<Rightarrow> string list \<Rightarrow> (string \<times> job_description) io" where
  "inject_in_runtime_docker_image lib w job_description func mod_paths =
     then_do (\<lambda>tr. if path_exists w tr MOD_PATH then perform w (RmTree MOD_PATH) tr
                    else return () tr) (\<lambda>_.
     then_do (getsource func) (\<lambda>f_src.
       let func_file_name = md5_hexdigest lib f_src;
           base_docker_image = runtime_name job_description;
           ext_docker_image = base_docker_image @ '':'' @ func_file_name;
           ext_docker_file = ''custom.dockerfile''
       in
     then_do (with_temporary_directory w MOD_PATH
                (stage_files w func mod_paths func_file_name base_docker_image ext_docker_file)) (\<lambda>_.
     then_do (perform w PdbSetTrace) (\<lambda>_.
     then_do (perform w (BuildAndCreateRuntime ext_docker_image ext_docker_file)) (\<lambda>_.
       return (func_file_name, job_description\<lparr>runtime_name := ext_docker_image\<rparr>))))))"

text \<open>
  \<^verbatim>\<open>_create_job\<close>, lines 117-237. The parameters that share a name with a key of
  the description are primed. Logging is left out, and with it \<^verbatim>\<open>log_level\<close> and
  \<^verbatim>\<open>total_size\<close>, which only the messages use. \<open>runtime_preinstalls\<close> is
  \<^verbatim>\<open>runtime_meta['preinstalls']\<close>. \<^verbatim>\<open>time.time()\<close> is the clock of the world at
  the history reached. The slice \<^verbatim>\<open>func_and_data_ser[1:]\<close> of an empty list is
  empty, the index \<^verbatim>\<open>func_and_data_ser[0]\<close> raises on it. The branch of line 226 is
  written as the source has it, with its constant condition.
\<close>

definition create_job ::
  "pylib \<Rightarrow> world \<Rightarrow> pywren_config \<Rightarrow> string \<Rightarrow> string \<Rightarrow> pyfunc \<Rightarrow> pyval list
     \<Rightarrow> string list \<Rightarrow> int option \<Rightarrow> (string \<times> pyval) list option \<Rightarrow> int
     \<Rightarrow> string list option \<Rightarrow> string list option \<Rightarrow> int option \<Rightarrow> int option
     \<Rightarrow> created io" where
  "create_job lib w config executor_id' job_id' func data runtime_preinstalls
      runtime_memory' extra_env' invoke_pool_threads' include_modules exclude_modules
      execution_timeout' job_created_tstamp' =
     (let runtime_name = pw_runtime config;
          runtime_memory = (case runtime_memory' of
                              None \<Rightarrow> pw_runtime_memory config | Some m \<Rightarrow> m);
          ext_env = (case extra_env' of None \<Rightarrow> [] | Some env \<Rightarrow> env);
          ext_env = (if ext_env \<noteq> [] then convert_bools_to_string lib ext_env else ext_env)
      in
      if data = [] then return EmptyResult
      else
        let execution_timeout = (case execution_timeout' of
                                   None \<Rightarrow> pw_runtime_timeout config - 5 | Some t \<Rightarrow> t);
            job_description =
              \<lparr>runtime_name = runtime_name, runtime_memory = runtime_memory,
               execution_timeout = execution_timeout, function_name = func_name func,
               extra_env = ext_env, total_calls = length data,
               invoke_pool_threads = invoke_pool_threads', executor_id = executor_id',
               job_id = job_id', data_key = None, data_ranges = None, func_key = None,
               metadata = None, parts_per_object = None\<rparr>;
            (exc_modules, inc_modules) =
              job_modules (pw_exclude_modules config) (pw_include_modules config)
                exclude_modules include_modules
        in
        then_do (perform w PdbSetTrace) (\<lambda>_.
        then_do (lift (serializer lib runtime_preinstalls (PFunc func # data)
                         inc_modules exc_modules)) (\<lambda>(func_and_data_ser, mod_paths).
          let data_strs = tl func_and_data_ser;
              data_size_bytes = sum_list (map length data_strs)
          in
        then_do (lift (create_module_data lib mod_paths)) (\<lambda>module_data.
        then_do (case func_and_data_ser of
                   [] \<Rightarrow> raise IndexError
                 | func_str # _ \<Rightarrow> return func_str) (\<lambda>func_str.
          let func_module_str = pickle_dumps lib func_str module_data;
              func_module_size_bytes = length func_module_str;
              data_limit = (case pw_data_limit config of
                              Some l \<Rightarrow> l | None \<Rightarrow> MAX_AGG_DATA_SIZE lib)
          in
          if data_limit \<noteq> 0 \<and> int data_size_bytes > data_limit * 1024 ^ 2
          then raise (PyException
                 (''ExecutorID '' @ executor_id' @ '' | JobID '' @ job_id'
                    @ '' - Total data exceeded maximum size of ''
                    @ sizeof_fmt lib (data_limit * 1024 ^ 2)))
          else
            let data_key = create_agg_data_key lib (JOBS_PREFIX lib) executor_id' job_id';
                job_description = job_description\<lparr>data_key := Some data_key\<rparr>;
                (data_bytes, data_ranges) = agg_data data_strs;
                job_description = job_description\<lparr>data_ranges := Some data_ranges\<rparr>
            in
            (\<lambda>tr0.
              let data_upload_start = time_time w tr0 in
            then_do (perform w (PutData data_key data_bytes)) (\<lambda>_ tr1.
              let data_upload_end = time_time w tr1;
                  func_upload_start = time_time w tr1;
                  func_key = create_func_key lib (JOBS_PREFIX lib) executor_id' job_id';
                  job_description = job_description\<lparr>func_key := Some func_key\<rparr>
              in
            then_do (if False
                     then then_do (perform w (PutFunc func_key func_module_str))
                            (\<lambda>_. return job_description)
                     else then_do (inject_in_runtime_docker_image lib w job_description
                                     func mod_paths)
                            (\<lambda>(func_file_name, job_description). return job_description))
              (\<lambda>job_description tr2.
                let func_upload_end = time_time w tr2;
                    host_job_meta =
                      \<lparr>job_created_tstamp = job_created_tstamp',
                       data_size_bytes = data_size_bytes,
                       func_module_size_bytes = func_module_size_bytes,
                       data_upload_time = data_upload_end - data_upload_start,
                       func_upload_time = func_upload_end - func_upload_start\<rparr>
                in return (Descriptor (job_description\<lparr>metadata := Some host_job_meta\<rparr>)) tr2)
              tr1) tr0))))))"

text \<open>
  \<^verbatim>\<open>create_reduce_job\<close>, lines 80-114. \<^verbatim>\<open>map_job\<close> is the description of the map
  job; the reduce marker is added to a copy of the extra environment
  (\<^verbatim>\<open>dict.update\<close>: an existing key keeps its place). The call of \<^verbatim>\<open>_create_job\<close>
  passes no \<^verbatim>\<open>invoke_pool_threads\<close>, which is then the default 128.
\<close>

fun dict_update :: "string \<Rightarrow> pyval \<Rightarrow> (string \<times> pyval) list \<Rightarrow> (string \<times> pyval) list" where
  "dict_update k v [] = [(k, v)]"
| "dict_update k v ((k', v') # d) =
     (if k = k' then (k, v) # d else (k', v') # dict_update k v d)"

definition create_reduce_job ::
  "pylib \<Rightarrow> world \<Rightarrow> pywren_config \<Rightarrow> string \<Rightarrow> string \<Rightarrow> pyfunc \<Rightarrow> job_description
     \<Rightarrow> pyval list \<Rightarrow> string list \<Rightarrow> bool \<Rightarrow> int option \<Rightarrow> (string \<times> pyval) list option
     \<Rightarrow> string list option \<Rightarrow> string list option \<Rightarrow> int option \<Rightarrow> created io" where
  "create_reduce_job lib w config executor_id' reduce_job_id reduce_function map_job
      map_futures runtime_preinstalls reducer_one_per_object runtime_memory' extra_env'
      include_modules exclude_modules execution_timeout' =
     (\<lambda>tr.
       let job_created_tstamp' = time_time w tr;
           iterdata = reduce_iterdata (parts_per_object map_job) reducer_one_per_object
                        map_futures;
           reduce_job_env = [(''__PW_REDUCE_JOB'', PBool True)];
           ext_env = (case extra_env' of
                        None \<Rightarrow> reduce_job_env
                      | Some env \<Rightarrow> dict_update ''__PW_REDUCE_JOB'' (PBool True) env)
       in
       then_do (lift (verify_args lib reduce_function iterdata)) (\<lambda>iterdata.
         create_job lib w config executor_id' reduce_job_id reduce_function iterdata
           runtime_preinstalls runtime_memory' (Some ext_env) 128 include_modules
           exclude_modules execution_timeout' (Some job_created_tstamp')) tr)"

section \<open>compute.py\<close>

text \<open>
  \<^verbatim>\<open>compute_config\<close>: \<open>cc_backend\<close> is \<^verbatim>\<open>compute_config['backend']\<close>, and
  \<open>cc_section name\<close> is \<^verbatim>\<open>compute_config[name]\<close>, \<open>None\<close> when the key is absent.
  A backend module is known by its attribute \<^verbatim>\<open>ComputeBackend\<close>, a constructor
  from the backend's section to a handler (\<open>None\<close> when the module has no such
  attribute). \<^verbatim>\<open>importlib.import_module\<close> is a parameter: the modules under
  \<^verbatim>\<open>pywren_ibm_cloud.compute.backends\<close> are not among the sources.
\<close>

record compute_config =
  cc_backend :: string
  cc_section :: "string \<Rightarrow> pyval option"

record 'h backend_module =
  ComputeBackend :: "(pyval \<Rightarrow> error + 'h) option"

record 'h Compute =
  log_level :: "string option"
  config_of :: compute_config
  backend :: string
  compute_handler :: "'h option"

text \<open>
  \<^verbatim>\<open>Compute.__init__\<close>, lines 30-43. Inside the \<^verbatim>\<open>try\<close> are the import of the
  module, the lookup of \<^verbatim>\<open>ComputeBackend\<close> in it, the lookup of the backend's section
  in the configuration, and the call of the constructor. The handler
  \<^verbatim>\<open>except Exception as e\<close> logs and raises \<open>e\<close> again, so an exception of any of
  them leaves the constructor as it is; the object under construction is lost with it.
\<close>

definition Compute_init ::
  "(string \<Rightarrow> string option) \<Rightarrow> (string \<Rightarrow> error + 'h backend_module) \<Rightarrow> compute_config
     \<Rightarrow> error + 'h Compute" where
  "Compute_init os_getenv import_module compute_config' =
     (let self = \<lparr>log_level = os_getenv ''PYWREN_LOGLEVEL'', config_of = compute_config',
                  backend = cc_backend compute_config', compute_handler = None\<rparr>;
          module_location = ''pywren_ibm_cloud.compute.backends.'' @ backend self
      in case import_module module_location of
           Inl e \<Rightarrow> Inl e
         | Inr cb_module \<Rightarrow>
             (case ComputeBackend cb_module of
                None \<Rightarrow> Inl (AttributeError ''ComputeBackend'')
              | Some ComputeBackend' \<Rightarrow>
                  (case cc_section (config_of self) (backend self) of
                     None \<Rightarrow> Inl (KeyError (backend self))
                   | Some section \<Rightarrow>
                       (case ComputeBackend' section of
                          Inl e \<Rightarrow> Inl e
                        | Inr handler \<Rightarrow> Inr (self\<lparr>compute_handler := Some handler\<rparr>)))))"

section \<open>localhost.py\<close>

text \<open>
  The constants that \<^verbatim>\<open>localhost.py\<close> imports from \<^verbatim>\<open>lithops.config\<close>
  (\<^verbatim>\<open>TEMP\<close>, \<^verbatim>\<open>STORAGE_DIR\<close>, \<^verbatim>\<open>JOBS_PREFIX\<close>, here \<open>LH_JOBS_PREFIX\<close>),
  \<^verbatim>\<open>sys.executable\<close> and \<^verbatim>\<open>json.dump\<close> on a job payload are parameters.
\<close>

text \<open>
  The job payload, as far as \<^verbatim>\<open>run_job\<close> reads it:
  \<^verbatim>\<open>job_payload['job_description']['runtime_name']\<close>, \<^verbatim>\<open>job_payload['executor_id']\<close>,
  \<^verbatim>\<open>job_payload['job_id']\<close> and
  \<^verbatim>\<open>job_payload['config']['lithops']['storage_bucket']\<close>, all strings; \<open>jp_rest\<close> is
  everything else in the dictionary.
\<close>

record job_payload =
  jp_runtime_name :: string
  jp_executor_id :: string
  jp_job_id :: string
  jp_storage_bucket :: string
  jp_rest :: pyval

record lithops_lib =
  TEMP :: string
  STORAGE_DIR :: string
  LH_JOBS_PREFIX :: string
  sys_executable :: string
  json_dumps :: "job_payload \<Rightarrow> error + string"

text \<open>
  \<^verbatim>\<open>os.path.join\<close> of \<^verbatim>\<open>posixpath\<close>: a component that starts with a slash
  replaces what was joined so far; a slash is put between two components unless the
  left one is empty or ends with one.
\<close>

definition join2 :: "string \<Rightarrow> string \<Rightarrow> string" where
  "join2 path b =
     (if b \<noteq> [] \<and> hd b = CHR ''/'' then b
      else if path = [] \<or> last path = CHR ''/'' then path @ b
      else path @ ''/'' @ b)"

definition os_path_join :: "string \<Rightarrow> string list \<Rightarrow> string" where
  "os_path_join a p = foldl join2 a p"

definition LOCAL_HANDLER_NAME :: string where
  "LOCAL_HANDLER_NAME = ''local_handler.py''"

definition HANDLER_FILE :: "lithops_lib \<Rightarrow> string" where
  "HANDLER_FILE L = os_path_join (STORAGE_DIR L) [LOCAL_HANDLER_NAME]"

text \<open>\<^verbatim>\<open>'{}'.format(n)\<close> for an integer: its decimal digits.\<close>

fun digits :: "nat \<Rightarrow> string" where
  "digits n = (if n < 10 then [char_of (48 + n)]
               else digits (n div 10) @ [char_of (48 + n mod 10)])"

declare digits.simps [simp del]

definition str_int :: "int \<Rightarrow> string" where
  "str_int i = (if i < 0 then ''-'' @ digits (nat (- i)) else digits (nat i))"

text \<open>
  The environments defined in \<^verbatim>\<open>localhost.py\<close>: \<open>DefaultEnv\<close> holds
  \<^verbatim>\<open>sys.executable\<close>, \<open>DockerEnv\<close> the docker image.
\<close>

datatype env = DefaultEnv string | DockerEnv string

text \<open>
  \<^verbatim>\<open>get_execution_cmd\<close> of both classes, lines 107-115 and 127-129. The docker one
  asks for the user id with \<^verbatim>\<open>id -u $USER\<close>, which may fail.
\<close>

fun get_execution_cmd :: "lithops_lib \<Rightarrow> world \<Rightarrow> env \<Rightarrow> string \<Rightarrow> string io" where
  "get_execution_cmd L w (DefaultEnv runtime) runtime' =
     return (runtime @ '' '' @ HANDLER_FILE L)"
| "get_execution_cmd L w (DockerEnv runtime) docker_image_name =
     (\<lambda>tr. then_do (lift (id_u w tr)) (\<lambda>uid.
        return (''docker run --user '' @ str_int uid @ '' --rm -v '' @ TEMP L
                  @ '':/tmp --entrypoint '' @ [CHR 0x22] @ ''python'' @ [CHR 0x22] @ '' ''
                  @ docker_image_name @ '' '' @ HANDLER_FILE L)) tr)"

record LocalhostHandler =
  lh_runtime :: "string option"
  lh_env :: env
  lh_env_type :: string

text \<open>
  \<^verbatim>\<open>LocalhostHandler.__init__\<close>, lines 42-51; \<open>runtime\<close> is
  \<^verbatim>\<open>localhost_config['runtime']\<close>.
\<close>

definition LocalhostHandler_init :: "lithops_lib \<Rightarrow> string option \<Rightarrow> LocalhostHandler" where
  "LocalhostHandler_init L runtime =
     (case runtime of
        None \<Rightarrow> \<lparr>lh_runtime = runtime, lh_env = DefaultEnv (sys_executable L),
                  lh_env_type = ''default''\<rparr>
      | Some docker_image \<Rightarrow> \<lparr>lh_runtime = runtime, lh_env = DockerEnv docker_image,
                      lh_env_type = ''docker''\<rparr>)"

text \<open>
  \<^verbatim>\<open>LocalhostHandler.run_job\<close>, lines 53-74. \<^verbatim>\<open>json.dump\<close> runs after the file has
  been opened for writing; the log file is opened for appending and handed to the
  process as its standard output.
\<close>

definition run_job :: "lithops_lib \<Rightarrow> world \<Rightarrow> LocalhostHandler \<Rightarrow> job_payload \<Rightarrow> unit io" where
  "run_job L w self job_payload' =
     (let runtime = jp_runtime_name job_payload' in
      then_do (get_execution_cmd L w (lh_env self) runtime) (\<lambda>exec_command.
        let executor_id = jp_executor_id job_payload';
            job_id = jp_job_id job_payload';
            storage_bucket = jp_storage_bucket job_payload';
            job_dir = os_path_join (STORAGE_DIR L)
                        [storage_bucket, LH_JOBS_PREFIX L, executor_id, job_id]
        in
      then_do (perform w (MakeDirs job_dir)) (\<lambda>_.
        let jobr_filename = os_path_join job_dir [''job.json''] in
      then_do (perform w (OpenFile jobr_filename ''w'')) (\<lambda>_.
      then_do (lift (json_dumps L job_payload')) (\<lambda>document.
      then_do (perform w (WriteFile jobr_filename document)) (\<lambda>_.
        let log_file = os_path_join (STORAGE_DIR L) [''local_handler.log''] in
      then_do (perform w (OpenFile log_file ''a'')) (\<lambda>_.
        perform w (Popen (exec_command @ '' run '' @ jobr_filename) log_file))))))))"

section \<open>A worked example\<close>

text \<open>
  Stand-ins for the collaborators, for the worked examples below: storage keys as
  pywren builds them, a pickler that writes one byte per integer, a dependency analysis
  that finds one module directory, and a world whose clock counts the events. The
  example of the specification: the input \<^verbatim>\<open>[1, 2, 3]\<close> and the function
  \<^verbatim>\<open>f(x) -> x*2\<close>.
\<close>

definition demo_lib :: pylib where
  "demo_lib =
     \<lparr>MAX_AGG_DATA_SIZE = 4, JOBS_PREFIX = ''pywren.jobs'',
      create_agg_data_key =
        (\<lambda>prefix e j. prefix @ ''/'' @ e @ ''/'' @ j @ ''/aggdata.pickle''),
      create_func_key =
        (\<lambda>prefix e j. prefix @ ''/'' @ e @ ''/'' @ j @ ''/func.pickle''),
      convert_bools_to_string =
        map (\<lambda>(k, v). (k, case v of PBool b \<Rightarrow> PStr (if b then ''True'' else ''False'')
                               | _ \<Rightarrow> v)),
      sizeof_fmt = (\<lambda>n. str_int (n div 1024 ^ 2) @ ''MiB''),
      cloudpickle_dumps =
        (\<lambda>v. case v of PFunc f \<Rightarrow> Inr (''F'' @ func_name f) | PInt n \<Rightarrow> Inr ''I''
                      | _ \<Rightarrow> Inr ''OBJ''),
      resolve_modules = (\<lambda>pre objs inc exc. Inr [''/home/user/mymod'']),
      create_module_data = (\<lambda>paths. Inr (PDict [])),
      pickle_dumps = (\<lambda>f m. ''P'' @ f),
      md5_hexdigest = (\<lambda>s. ''md5-'' @ take 5 s),
      bind_args = (\<lambda>f v. Inr (PDict [(''results'', v)]))\<rparr>"

text \<open>
  The file system of the example world, as far as \<^verbatim>\<open>ext_mod_path\<close> goes. The path
  is absent, a directory or a regular file; the history changes it as the operations of
  \<^verbatim>\<open>shutil\<close> do: \<^verbatim>\<open>rmtree\<close> removes it, \<^verbatim>\<open>copytree\<close> to a path below it makes
  it a directory, \<^verbatim>\<open>copy2\<close> onto it makes it a file when it was absent. A file below it
  can be opened only when it is a directory, and it can neither be removed as a tree nor
  extended by \<^verbatim>\<open>copytree\<close> when it is a file. The temporary directory of the
  \<^verbatim>\<open>with\<close> statement is another path and changes nothing here.
\<close>

datatype node = Absent | IsDir | IsFile

fun starts_with :: "string \<Rightarrow> string \<Rightarrow> bool" where
  "starts_with [] s = True"
| "starts_with (c # p) [] = False"
| "starts_with (c # p) (d # s) = (c = d \<and> starts_with p s)"

fun mod_path_node :: "node \<Rightarrow> event list \<Rightarrow> node" where
  "mod_path_node n [] = n"
| "mod_path_node n (RmTree p # tr) =
     mod_path_node (if p = ''ext_mod_path'' then Absent else n) tr"
| "mod_path_node n (CopyTree src dst # tr) =
     mod_path_node (if starts_with ''ext_mod_path/'' dst then IsDir else n) tr"
| "mod_path_node n (Copy2 src dst # tr) =
     mod_path_node (if dst = ''ext_mod_path'' \<and> n = Absent then IsFile else n) tr"
| "mod_path_node n (e # tr) = mod_path_node n tr"

definition demo_fails :: "node \<Rightarrow> event list \<Rightarrow> event \<Rightarrow> error option" where
  "demo_fails initial tr e =
     (case e of
        OpenFile name mode \<Rightarrow>
          if starts_with ''ext_mod_path/'' name \<and> mod_path_node initial tr \<noteq> IsDir
          then Some (OSError ''FileNotFoundError'') else None
      | CopyTree src dst \<Rightarrow>
          if starts_with ''ext_mod_path/'' dst \<and> mod_path_node initial tr = IsFile
          then Some (OSError ''NotADirectoryError'') else None
      | RmTree p \<Rightarrow>
          if p = ''ext_mod_path'' \<and> mod_path_node initial tr = IsFile
          then Some (OSError ''NotADirectoryError'') else None
      | _ \<Rightarrow> None)"

text \<open>
  The example world starts without \<^verbatim>\<open>ext_mod_path\<close>; \<^verbatim>\<open>/home/user/mymod\<close> is its
  only directory among the modules.
\<close>

definition demo_world :: world where
  "demo_world =
     \<lparr>fails = demo_fails Absent,
      path_exists = (\<lambda>tr p. p = ''ext_mod_path'' \<and> mod_path_node Absent tr \<noteq> Absent),
      path_isdir = (\<lambda>tr p. p = ''/home/user/mymod''),
      time_time = (\<lambda>tr. int (length tr)), getenv = (\<lambda>v. None), id_u = (\<lambda>tr. Inr 1000)\<rparr>"

definition demo_config :: pywren_config where
  "demo_config =
     \<lparr>pw_runtime = ''python3.6'', pw_runtime_memory = 256, pw_runtime_timeout = 600,
      pw_data_limit = None, pw_exclude_modules = Some [], pw_include_modules = Some []\<rparr>"

definition demo_func :: pyfunc where
  "demo_func = \<lparr>func_name = ''f'', func_source = Some ''def f(x): return x*2''\<rparr>"

definition demo_run :: "(error + created) \<times> event list" where
  "demo_run =
     create_job demo_lib demo_world demo_config ''ex'' ''M000'' demo_func
       [PInt 1, PInt 2, PInt 3] [] None None 128 (Some []) (Some []) None (Some 0) []"

text \<open>
  The descriptor of a map job over two objects, cut into two and three partitions, five
  map results, and a reduce function.
\<close>

definition demo_map_job :: job_description where
  "demo_map_job =
     \<lparr>runtime_name = ''python3.6'', runtime_memory = 256, execution_timeout = 595,
      function_name = ''f'', extra_env = [], total_calls = 5, invoke_pool_threads = 128,
      executor_id = ''ex'', job_id = ''M000'',
      data_key = Some ''pywren.jobs/ex/M000/aggdata.pickle'',
      data_ranges = Some [(0, 1), (1, 1), (2, 1), (3, 1), (4, 1)],
      func_key = Some ''pywren.jobs/ex/M000/func.pickle'', metadata = None,
      parts_per_object = Some [2, 3]\<rparr>"

definition demo_futures :: "pyval list" where
  "demo_futures = [PObj ''a'', PObj ''b'', PObj ''c'', PObj ''d'', PObj ''e'']"

definition demo_reducer :: pyfunc where
  "demo_reducer =
     \<lparr>func_name = ''r'', func_source = Some ''def r(results): return sum(results)''\<rparr>"

definition demo_reduce_run :: "bool \<Rightarrow> (error + created) \<times> event list" where
  "demo_reduce_run reducer_one_per_object =
     create_reduce_job demo_lib demo_world demo_config ''ex'' ''R000'' demo_reducer
       demo_map_job demo_futures [] reducer_one_per_object None None (Some []) (Some [])
       None []"

text \<open>
  Two variations for the size check: a pickler whose function-and-modules blob has two
  MiB, a pickler whose every blob has two MiB, and a configuration with a ceiling of one
  MiB.
\<close>

definition heavy_lib :: pylib where
  "heavy_lib = demo_lib\<lparr>pickle_dumps := (\<lambda>f m. replicate (2 * 1024 ^ 2) (CHR ''x''))\<rparr>"

definition bulky_lib :: pylib where
  "bulky_lib =
     demo_lib\<lparr>cloudpickle_dumps := (\<lambda>v. Inr (replicate (2 * 1024 ^ 2) (CHR ''x'')))\<rparr>"

definition limit_config :: pywren_config where
  "limit_config = demo_config\<lparr>pw_data_limit := Some 1\<rparr>"

text \<open>
  Two more: a pickler whose every blob has exactly one MiB, and a configuration whose
  limit is zero.
\<close>

definition exact_lib :: pylib where
  "exact_lib =
     demo_lib\<lparr>cloudpickle_dumps := (\<lambda>v. Inr (replicate (1024 ^ 2) (CHR ''x'')))\<rparr>"

definition zero_config :: pywren_config where
  "zero_config = demo_config\<lparr>pw_data_limit := Some 0\<rparr>"

text \<open>
  A world in which the directory \<^verbatim>\<open>ext_mod_path\<close> is left over from an earlier
  run.
\<close>

definition demo_world_stale :: world where
  "demo_world_stale =
     demo_world
       \<lparr>fails := demo_fails IsDir,
        path_exists := (\<lambda>tr p. p = ''ext_mod_path'' \<and> mod_path_node IsDir tr \<noteq> Absent)\<rparr>"

text \<open>
  Backend modules for the dispatcher: \<^verbatim>\<open>ibm_cf\<close> has a constructor that returns,
  \<^verbatim>\<open>knative\<close> one that raises, and no other module exists.
\<close>

definition demo_import :: "string \<Rightarrow> error + string backend_module" where
  "demo_import location =
     (if location = ''pywren_ibm_cloud.compute.backends.ibm_cf''
      then Inr \<lparr>ComputeBackend = Some (\<lambda>section. Inr ''ibm_cf handler'')\<rparr>
      else if location = ''pywren_ibm_cloud.compute.backends.knative''
      then Inr \<lparr>ComputeBackend = Some (\<lambda>section. Inl (External ''no kubernetes cluster''))\<rparr>
      else Inl (External ''ModuleNotFoundError''))"

definition demo_compute_config :: "string \<Rightarrow> compute_config" where
  "demo_compute_config name =
     \<lparr>cc_backend = name,
      cc_section = (\<lambda>key. if key = ''ibm_cf'' \<or> key = ''knative'' then Some (PDict [])
                           else None)\<rparr>"

text \<open>The localhost handler: constants as lithops sets them, and a job payload.\<close>

definition demo_lithops :: lithops_lib where
  "demo_lithops =
     \<lparr>TEMP = ''/tmp'', STORAGE_DIR = ''/tmp/lithops'', LH_JOBS_PREFIX = ''lithops.jobs'',
      sys_executable = ''/usr/bin/python3'',
      json_dumps = (\<lambda>p. Inr (''{executor_id: '' @ jp_executor_id p @ '', job_id: ''
                               @ jp_job_id p @ ''}''))\<rparr>"

definition demo_payload :: job_payload where
  "demo_payload =
     \<lparr>jp_runtime_name = ''python3.6'', jp_executor_id = ''ex'', jp_job_id = ''M000'',
      jp_storage_bucket = ''storage'', jp_rest = PDict []\<rparr>"

section \<open>Histories\<close>

text \<open>
  A computation only adds events that satisfy \<open>P\<close>: whatever the history it starts
  from and however it ends, the history it leaves is the old one followed by events
  that all satisfy \<open>P\<close>. \<open>not_put_func\<close> holds of every event but a completed
  \<^verbatim>\<open>put_func\<close>.
\<close>

definition only_adds :: "(event \<Rightarrow> bool) \<Rightarrow> 'a io \<Rightarrow> bool" where
  "only_adds P m = (\<forall>tr. \<exists>evs. snd (m tr) = tr @ evs \<and> list_all P evs)"

fun not_put_func :: "event \<Rightarrow> bool" where
  "not_put_func (PutFunc k b) = False"
| "not_put_func e = True"

section \<open>Properties\<close>

lemmas io_defs = then_do_def perform_def lift_def return_def raise_def

lemmas job_defs = create_job_def serializer_def job_modules_def items_def agg_data_def
  inject_in_runtime_docker_image_def getsource_def with_temporary_directory_def
  stage_files_def write_file_def MOD_PATH_def basename_def Let_def

lemmas demo_defs = demo_lib_def demo_world_def demo_fails_def demo_config_def demo_func_def

lemmas inject_defs = inject_in_runtime_docker_image_def getsource_def
  with_temporary_directory_def stage_files_def write_file_def MOD_PATH_def basename_def Let_def

subsection \<open>The helpers\<close>

lemma length_group_futures: "length (group_futures prev parts fs) = length parts"
  by (induction parts arbitrary: prev) auto

lemma group_futures_lengths:
  "prev + sum_list parts \<le> length fs \<Longrightarrow> map length (group_futures prev parts fs) = parts"
  by (induction parts arbitrary: prev) (auto simp: py_slice_def)

lemma group_futures_concat:
  "concat (group_futures prev parts fs) = take (sum_list parts) (drop prev fs)"
  by (induction parts arbitrary: prev) (auto simp: py_slice_def take_add add.commute)

lemma length_reduce_iterdata:
  "length (reduce_iterdata pp one_per futs)
     = (case pp of Some parts \<Rightarrow> if one_per then length parts else 1 | None \<Rightarrow> 1)"
  by (simp add: reduce_iterdata_def length_group_futures split: option.splits)

lemma length_agg_ranges: "length (agg_ranges pos data_strs) = length data_strs"
  by (induction data_strs arbitrary: pos) auto

lemma map_result_length: "map_result f xs = Inr ys \<Longrightarrow> length ys = length xs"
  by (induction xs arbitrary: ys) (auto split: sum.splits)

lemma serializer_length:
  "serializer lib pre objs inc exc = Inr (strs, mods) \<Longrightarrow> length strs = length objs"
  by (auto simp: serializer_def split: sum.splits dest: map_result_length)

lemma serializer_blobs:
  "serializer lib pre (obj # objs) inc exc = Inr (strs, mods)
     \<Longrightarrow> map_result (cloudpickle_dumps lib) objs = Inr (tl strs)"
  by (auto simp: serializer_def split: sum.splits)

lemma then_do_Inr:
  "then_do m f tr = (Inr y, tr') \<Longrightarrow> \<exists>x tr1. m tr = (Inr x, tr1) \<and> f x tr1 = (Inr y, tr')"
  by (auto simp: then_do_def split: prod.splits sum.splits)

subsection \<open>What a returned descriptor holds\<close>

lemma inject_result:
  assumes "inject_in_runtime_docker_image lib w jd func mods tr = (Inr (n, jd'), tr')"
  shows "\<exists>src. func_source func = Some src \<and> n = md5_hexdigest lib src
           \<and> jd' = jd\<lparr>runtime_name := runtime_name jd @ '':'' @ n\<rparr>"
  using assms
  by (auto simp: inject_in_runtime_docker_image_def getsource_def return_def raise_def Let_def
      dest!: then_do_Inr split: option.splits)

lemma create_job_result:
  assumes "create_job lib w config ex jid func data pre rm env ipt inc exc et ts tr = (Inr r, tr')"
    and "data \<noteq> []"
  shows "\<exists>d strs mods. r = Descriptor d \<and> total_calls d = length data
          \<and> serializer lib pre (PFunc func # data)
               (snd (job_modules (pw_exclude_modules config) (pw_include_modules config) exc inc))
               (fst (job_modules (pw_exclude_modules config) (pw_include_modules config) exc inc))
              = Inr (strs, mods)
          \<and> data_ranges d = Some (agg_ranges 0 (tl strs))"
  using assms
  apply (simp add: create_job_def Let_def split: prod.splits)
  apply (auto simp: lift_def return_def raise_def agg_data_def Let_def
      dest!: then_do_Inr inject_result split: prod.splits list.splits if_splits)
  done

lemma create_job_no_data:
  "create_job lib w config ex jid func [] pre rm env ipt inc exc et ts tr = (Inr EmptyResult, tr)"
  by (simp add: create_job_def return_def Let_def)

lemma demo_run_value:
  "demo_run =
    (Inr (Descriptor
        \<lparr>runtime_name = ''python3.6:md5-def f'', runtime_memory = 256,
         execution_timeout = 595, function_name = ''f'', extra_env = [], total_calls = 3,
         invoke_pool_threads = 128, executor_id = ''ex'', job_id = ''M000'',
         data_key = Some ''pywren.jobs/ex/M000/aggdata.pickle'',
         data_ranges = Some [(0, 1), (1, 1), (2, 1)],
         func_key = Some ''pywren.jobs/ex/M000/func.pickle'',
         metadata =
           Some \<lparr>job_created_tstamp = Some 0, data_size_bytes = 3,
                 func_module_size_bytes = 3, data_upload_time = 1, func_upload_time = 9\<rparr>,
         parts_per_object = None\<rparr>),
     [PdbSetTrace, PutData ''pywren.jobs/ex/M000/aggdata.pickle'' ''III'',
      TempDirCreate ''ext_mod_path'',
      CopyTree ''/home/user/mymod'' ''ext_mod_path/mymod'',
      OpenFile ''ext_mod_path/md5-def f.py'' ''w'',
      WriteFile ''ext_mod_path/md5-def f.py'' ''def f(x): return x*2'',
      OpenFile ''custom.dockerfile'' ''w'',
      WriteFile ''custom.dockerfile''
        (''FROM python3.6'' @ [CHR 0x0A] @ ''ENV PYTHONPATH=ext_mod_path:$PYTHONPATH''
           @ [CHR 0x0A] @ ''COPY ext_mod_path ext_mod_path''),
      TempDirCleanup ''ext_mod_path'', PdbSetTrace,
      BuildAndCreateRuntime ''python3.6:md5-def f'' ''custom.dockerfile''])"
  by (simp add: demo_run_def job_defs io_defs demo_defs)

lemma perform_Inr: "perform w e tr = (Inr u, tr') \<Longrightarrow> tr' = tr @ [e]"
  by (auto simp: perform_def split: option.splits)

lemma inject_built:
  assumes "inject_in_runtime_docker_image lib w jd func mods tr = (Inr (n, jd'), tr')"
  shows "\<exists>evs. tr' = evs @ [BuildAndCreateRuntime (runtime_name jd') ''custom.dockerfile'']"
  using assms
  by (auto simp: inject_in_runtime_docker_image_def getsource_def return_def raise_def Let_def
      dest!: then_do_Inr perform_Inr split: option.splits)

lemma demo_reduce_run_returns:
  "\<exists>d tr'. demo_reduce_run b = (Inr (Descriptor d), tr')"
  by (simp add: demo_reduce_run_def create_reduce_job_def verify_args_def reduce_iterdata_def
      demo_map_job_def demo_futures_def demo_reducer_def py_slice_def job_defs io_defs demo_defs)

lemma str_int_1: "str_int 1 = ''1''"
  by code_simp

subsection \<open>Histories only grow\<close>

lemma perform_cases:
  "perform w e tr = (r, tr') \<Longrightarrow>
     (r = Inr () \<and> tr' = tr @ [e]) \<or> (\<exists>err. r = Inl err \<and> tr' = tr)"
  by (auto simp: perform_def split: option.splits)

lemma only_adds_return: "only_adds P (return x)"
  by (simp add: only_adds_def return_def)

lemma only_adds_raise: "only_adds P (raise e)"
  by (simp add: only_adds_def raise_def)

lemma only_adds_perform: "P e \<Longrightarrow> only_adds P (perform w e)"
  by (auto simp: only_adds_def perform_def split: option.splits)

lemma only_adds_when:
  "P e \<Longrightarrow> only_adds P (\<lambda>tr. if c tr then perform w e tr else return () tr)"
  by (auto simp: only_adds_def perform_def return_def split: option.splits)

lemma only_addsD:
  "only_adds P m \<Longrightarrow> m tr = (r, tr') \<Longrightarrow> \<exists>evs. tr' = tr @ evs \<and> list_all P evs"
  by (auto simp: only_adds_def dest: spec [of _ tr])

lemma only_adds_then_do:
  assumes "only_adds P m" and "\<And>x. only_adds P (f x)"
  shows "only_adds P (then_do m f)"
  unfolding only_adds_def
proof
  fix tr
  obtain r tr1 where m: "m tr = (r, tr1)" by (cases "m tr")
  from only_addsD [OF assms(1) m] obtain evs1 where 1: "tr1 = tr @ evs1" "list_all P evs1"
    by blast
  show "\<exists>evs. snd (then_do m f tr) = tr @ evs \<and> list_all P evs"
  proof (cases r)
    case (Inl e)
    with m 1 show ?thesis by (simp add: then_do_def)
  next
    case (Inr x)
    obtain r2 tr2 where f: "f x tr1 = (r2, tr2)" by (cases "f x tr1")
    from only_addsD [OF assms(2) f] obtain evs2 where 2: "tr2 = tr1 @ evs2" "list_all P evs2"
      by blast
    from Inr m f 1 2 show ?thesis by (simp add: then_do_def)
  qed
qed

lemma only_adds_history:
  assumes "\<And>t. only_adds P (g t)"
  shows "only_adds P (\<lambda>tr. g tr tr)"
  using assms by (simp add: only_adds_def)

lemma only_adds_copy_modules:
  assumes "\<And>a b. P (CopyTree a b)" and "\<And>a b. P (Copy2 a b)"
  shows "only_adds P (copy_modules w mods)"
proof (induction mods)
  case Nil
  show ?case by (simp add: only_adds_return)
next
  case (Cons m mods)
  show ?case
    by (simp, rule only_adds_history, rule only_adds_then_do)
       (auto intro: only_adds_perform assms Cons)
qed

lemma only_adds_getsource: "only_adds P (getsource f)"
  by (auto simp: getsource_def only_adds_return only_adds_raise split: option.splits)

lemma only_adds_write_file:
  "(\<And>a b. P (OpenFile a b)) \<Longrightarrow> (\<And>a b. P (WriteFile a b)) \<Longrightarrow> only_adds P (write_file w n c)"
  unfolding write_file_def by (intro only_adds_then_do only_adds_perform) auto

lemma only_adds_with_temporary_directory:
  assumes "only_adds P body" and "\<And>s. P (TempDirCreate s)" and "\<And>s. P (TempDirCleanup s)"
  shows "only_adds P (with_temporary_directory w suffix body)"
  unfolding with_temporary_directory_def
proof (rule only_adds_then_do [OF only_adds_perform [of P "TempDirCreate suffix" w, OF assms(2)]])
  fix x :: unit
  show "only_adds P (\<lambda>tr. case body tr of
          (Inl e, tr') \<Rightarrow> then_do (perform w (TempDirCleanup suffix)) (\<lambda>_. raise e) tr'
        | (Inr _, tr') \<Rightarrow> perform w (TempDirCleanup suffix) tr')"
    unfolding only_adds_def
  proof
    fix tr
    obtain r tr1 where b: "body tr = (r, tr1)" by (cases "body tr")
    from only_addsD [OF assms(1) b] obtain evs1 where 1: "tr1 = tr @ evs1" "list_all P evs1"
      by blast
    have c: "only_adds P (perform w (TempDirCleanup suffix))"
      by (rule only_adds_perform [of P "TempDirCleanup suffix" w, OF assms(3)])
    show "\<exists>evs. snd (case body tr of
          (Inl e, tr') \<Rightarrow> then_do (perform w (TempDirCleanup suffix)) (\<lambda>_. raise e) tr'
        | (Inr _, tr') \<Rightarrow> perform w (TempDirCleanup suffix) tr') = tr @ evs \<and> list_all P evs"
    proof (cases r)
      case (Inl e)
      have "only_adds P (then_do (perform w (TempDirCleanup suffix)) (\<lambda>_. raise e :: unit io))"
        by (intro only_adds_then_do c only_adds_raise)
      then obtain evs2 where
        "snd (then_do (perform w (TempDirCleanup suffix)) (\<lambda>_. raise e :: unit io) tr1) = tr1 @ evs2"
        "list_all P evs2"
        unfolding only_adds_def by blast
      with Inl b 1 show ?thesis by simp
    next
      case (Inr u)
      from c obtain evs2 where
        "snd (perform w (TempDirCleanup suffix) tr1) = tr1 @ evs2" "list_all P evs2"
        unfolding only_adds_def by blast
      with Inr b 1 show ?thesis by simp
    qed
  qed
qed

lemma only_adds_stage_files:
  "only_adds not_put_func (stage_files w func mods n base file)"
  unfolding stage_files_def
  by (intro only_adds_then_do only_adds_copy_modules only_adds_getsource only_adds_write_file)
     simp_all

lemma only_adds_inject:
  "only_adds not_put_func (inject_in_runtime_docker_image lib w jd func mods)"
  unfolding inject_in_runtime_docker_image_def Let_def
  by (intro only_adds_then_do only_adds_getsource only_adds_with_temporary_directory
      only_adds_stage_files only_adds_perform only_adds_return only_adds_when)
     simp_all

lemma inject_trace:
  "inject_in_runtime_docker_image lib w jd func mods tr = (r, tr')
     \<Longrightarrow> \<exists>evs. tr' = tr @ evs \<and> list_all not_put_func evs"
  by (rule only_addsD [OF only_adds_inject])

lemma inject_facts:
  assumes "inject_in_runtime_docker_image lib w jd func mods tr = (Inr (n, jd'), tr')"
  shows "jd' = jd\<lparr>runtime_name := runtime_name jd @ '':'' @ n\<rparr>
           \<and> (\<exists>evs. tr' = tr @ evs \<and> list_all not_put_func evs)"
  using inject_result [OF assms] inject_trace [OF assms] by blast

lemma create_job_trace:
  assumes "create_job lib w config ex jid func data pre rm env ipt inc exc et ts tr = (r, tr')"
  shows "\<exists>evs. tr' = tr @ evs \<and> list_all not_put_func evs"
  using assms
  apply (simp add: create_job_def Let_def split: prod.splits if_splits)
   apply (simp add: return_def)
  apply (auto simp: then_do_def lift_def return_def raise_def Let_def agg_data_def
      split: prod.splits sum.splits list.splits if_splits
      dest!: perform_cases inject_trace)
  done

lemma create_job_uploads:
  assumes "create_job lib w config ex jid func data pre rm env ipt inc exc et ts tr
             = (Inr (Descriptor d), tr')"
  shows "\<exists>strs mods evs.
           serializer lib pre (PFunc func # data)
               (snd (job_modules (pw_exclude_modules config) (pw_include_modules config) exc inc))
               (fst (job_modules (pw_exclude_modules config) (pw_include_modules config) exc inc))
              = Inr (strs, mods)
           \<and> data_key d = Some (create_agg_data_key lib (JOBS_PREFIX lib) ex jid)
           \<and> func_key d = Some (create_func_key lib (JOBS_PREFIX lib) ex jid)
           \<and> tr' = tr @ [PdbSetTrace,
                          PutData (create_agg_data_key lib (JOBS_PREFIX lib) ex jid)
                            (concat (tl strs))] @ evs
           \<and> list_all not_put_func evs
           \<and> data_ranges d = Some (agg_ranges 0 (tl strs))
           \<and> total_calls d = length data"
  using assms
  apply (simp add: create_job_def Let_def split: prod.splits if_splits)
   apply (simp add: return_def)
  apply (auto simp: lift_def return_def raise_def agg_data_def Let_def
      dest!: then_do_Inr inject_facts perform_Inr split: prod.splits list.splits if_splits)
  done

subsection \<open>The localhost handler\<close>

lemma get_execution_cmd_pure:
  "get_execution_cmd L w e rt tr = (r, tr') \<Longrightarrow> tr' = tr"
  by (cases e) (auto simp: io_defs split: sum.splits)

lemma job_file_path:
  "os_path_join (os_path_join a [b, c, d, e]) [f] = os_path_join a [b, c, d, e, f]"
  by (simp add: os_path_join_def)

subsection \<open>Main results\<close>

text \<open>
  C6. A call of \<^verbatim>\<open>_create_job\<close> with an empty input returns the empty result at
  once. It holds for every serializer and every world, also those that would raise, and
  the history is unchanged: nothing is serialized and nothing is uploaded.
\<close>

theorem create_job_empty:
  "create_job lib w config ex jid func [] pre rm env ipt inc exc et ts tr = (Inr EmptyResult, tr)"
  by (simp add: create_job_def return_def Let_def)

text \<open>
  C5. When \<^verbatim>\<open>_create_job\<close> returns for a non-empty input, it returns a descriptor
  whose byte-range index has one entry per input element, and \<^verbatim>\<open>total_calls\<close> is the
  length of the input. The serializer and \<^verbatim>\<open>agg_data\<close> are the models above.
\<close>

theorem create_job_ranges_calls:
  assumes "create_job lib w config ex jid func data pre rm env ipt inc exc et ts tr = (Inr r, tr')"
    and "data \<noteq> []"
  shows "\<exists>d ranges. r = Descriptor d \<and> data_ranges d = Some ranges
           \<and> length ranges = total_calls d \<and> total_calls d = length data"
proof -
  from create_job_result [OF assms] obtain d strs mods where
    d: "r = Descriptor d" "total_calls d = length data"
    and ser: "serializer lib pre (PFunc func # data)
               (snd (job_modules (pw_exclude_modules config) (pw_include_modules config) exc inc))
               (fst (job_modules (pw_exclude_modules config) (pw_include_modules config) exc inc))
              = Inr (strs, mods)"
    and ranges: "data_ranges d = Some (agg_ranges 0 (tl strs))"
    by blast
  from serializer_length [OF ser] have "length (tl strs) = length data" by simp
  with d ranges show ?thesis by (simp add: length_agg_ranges)
qed

theorem create_job_ranges_calls_witness:
  "[PInt 1, PInt 2, PInt 3] \<noteq> [] \<and>
   (\<exists>d ranges tr'. demo_run = (Inr (Descriptor d), tr') \<and> data_ranges d = Some ranges
      \<and> length ranges = 3 \<and> total_calls d = 3)"
proof -
  obtain r tr' where run: "demo_run = (Inr r, tr')"
    by (simp add: demo_run_value)
  have ne: "[PInt 1, PInt 2, PInt 3] \<noteq> []" by simp
  from create_job_ranges_calls [OF run [unfolded demo_run_def] ne] run
  show ?thesis by auto
qed

text \<open>
  C4. With per-object grouping and partition counts that sum to the number of map
  results, the input of the reduce calls is the list of one-argument lists of the
  groups, where the groups have the lengths given by \<^verbatim>\<open>parts_per_object\<close>, in order,
  and put end to end they are the map results: the slices are contiguous and keep the
  order.
\<close>

theorem reduce_groups_per_object:
  assumes "sum_list parts = length map_futures"
  shows "\<exists>groups. reduce_iterdata (Some parts) True map_futures = map (\<lambda>g. PList [PList g]) groups
           \<and> map length groups = parts \<and> concat groups = map_futures"
proof (intro exI conjI)
  show "reduce_iterdata (Some parts) True map_futures
          = map (\<lambda>g. PList [PList g]) (group_futures 0 parts map_futures)"
    by (simp add: reduce_iterdata_def)
  show "map length (group_futures 0 parts map_futures) = parts"
    using assms by (simp add: group_futures_lengths)
  show "concat (group_futures 0 parts map_futures) = map_futures"
    using assms by (simp add: group_futures_concat)
qed

theorem reduce_groups_per_object_witness:
  "sum_list [2, 3] = length [PObj ''a'', PObj ''b'', PObj ''c'', PObj ''d'', PObj ''e''] \<and>
   (\<exists>groups.
      reduce_iterdata (Some [2, 3]) True [PObj ''a'', PObj ''b'', PObj ''c'', PObj ''d'', PObj ''e'']
        = map (\<lambda>g. PList [PList g]) groups
      \<and> map length groups = [2, 3]
      \<and> concat groups = [PObj ''a'', PObj ''b'', PObj ''c'', PObj ''d'', PObj ''e'']) \<and>
   reduce_iterdata (Some [2, 3]) True [PObj ''a'', PObj ''b'', PObj ''c'', PObj ''d'', PObj ''e'']
     = [PList [PList [PObj ''a'', PObj ''b'']], PList [PList [PObj ''c'', PObj ''d'', PObj ''e'']]]"
proof -
  have s: "sum_list [2, 3] = length [PObj ''a'', PObj ''b'', PObj ''c'', PObj ''d'', PObj ''e'']"
    by simp
  have v: "reduce_iterdata (Some [2, 3]) True [PObj ''a'', PObj ''b'', PObj ''c'', PObj ''d'', PObj ''e'']
     = [PList [PList [PObj ''a'', PObj ''b'']], PList [PList [PObj ''c'', PObj ''d'', PObj ''e'']]]"
    by (simp add: reduce_iterdata_def py_slice_def)
  from reduce_groups_per_object [OF s] s v show ?thesis by blast
qed

text \<open>
  C10. A reduce job that \<^verbatim>\<open>create_reduce_job\<close> returns was built from these calls:
  when per-object grouping is not in effect (not selected, or the map job carries no
  partition counts), one call, whose input is the one-argument list of the whole list
  of map results; with per-object grouping and partition counts, one call per entry of
  \<^verbatim>\<open>parts_per_object\<close>, whose input is the one-argument list of that object's group.
  The inputs are bound to the reduce function, the bound calls are pickled, and the
  descriptor counts these calls in \<^verbatim>\<open>total_calls\<close> (1, or the number of entries),
  indexes their blobs in \<^verbatim>\<open>data_ranges\<close>, and the blobs, put end to end, are what
  \<^verbatim>\<open>put_data\<close> has stored. \<^verbatim>\<open>verify_args\<close> and the serializer are the models
  above.
\<close>

theorem reduce_total_calls:
  assumes "create_reduce_job lib w config ex rjid rf map_job futs pre one_per rm env inc exc et tr
             = (Inr (Descriptor d), tr')"
  shows "\<exists>calls blobs evs.
           map_result (bind_args lib rf)
             (case parts_per_object map_job of
                Some parts \<Rightarrow>
                  if one_per then map (\<lambda>g. PList [PList g]) (group_futures 0 parts futs)
                  else [PList [PList futs]]
              | None \<Rightarrow> [PList [PList futs]]) = Inr calls
           \<and> map_result (cloudpickle_dumps lib) calls = Inr blobs
           \<and> total_calls d = length calls
           \<and> total_calls d =
               (case parts_per_object map_job of
                  Some parts \<Rightarrow> if one_per then length parts else 1
                | None \<Rightarrow> 1)
           \<and> data_ranges d = Some (agg_ranges 0 blobs)
           \<and> tr' = tr @ [PdbSetTrace,
                          PutData (create_agg_data_key lib (JOBS_PREFIX lib) ex rjid)
                            (concat blobs)] @ evs"
proof -
  from assms obtain iterdata tr1 where
    v: "verify_args lib rf (reduce_iterdata (parts_per_object map_job) one_per futs) = Inr iterdata"
    and c: "create_job lib w config ex rjid rf iterdata pre rm
              (Some (case env of None \<Rightarrow> [(''__PW_REDUCE_JOB'', PBool True)]
                     | Some env \<Rightarrow> dict_update ''__PW_REDUCE_JOB'' (PBool True) env))
              128 inc exc et (Some (time_time w tr)) tr1 = (Inr (Descriptor d), tr')"
    and tr1: "tr1 = tr"
    by (auto simp: create_reduce_job_def Let_def lift_def dest!: then_do_Inr)
  have inputs: "reduce_iterdata (parts_per_object map_job) one_per futs =
      (case parts_per_object map_job of
         Some parts \<Rightarrow>
           if one_per then map (\<lambda>g. PList [PList g]) (group_futures 0 parts futs)
           else [PList [PList futs]]
       | None \<Rightarrow> [PList [PList futs]])"
    by (simp add: reduce_iterdata_def split: option.splits)
  from create_job_uploads [OF c] obtain strs mods evs where
    u: "serializer lib pre (PFunc rf # iterdata)
          (snd (job_modules (pw_exclude_modules config) (pw_include_modules config) exc inc))
          (fst (job_modules (pw_exclude_modules config) (pw_include_modules config) exc inc))
        = Inr (strs, mods)"
       "tr' = tr1 @ [PdbSetTrace,
                     PutData (create_agg_data_key lib (JOBS_PREFIX lib) ex rjid)
                       (concat (tl strs))] @ evs"
       "data_ranges d = Some (agg_ranges 0 (tl strs))"
       "total_calls d = length iterdata"
    by blast
  from serializer_blobs [OF u(1)] have
    b: "map_result (cloudpickle_dumps lib) iterdata = Inr (tl strs)" .
  from v have len: "length iterdata
      = length (reduce_iterdata (parts_per_object map_job) one_per futs)"
    by (simp add: verify_args_def map_result_length)
  from v inputs have calls: "map_result (bind_args lib rf)
             (case parts_per_object map_job of
                Some parts \<Rightarrow>
                  if one_per then map (\<lambda>g. PList [PList g]) (group_futures 0 parts futs)
                  else [PList [PList futs]]
              | None \<Rightarrow> [PList [PList futs]]) = Inr iterdata"
    by (simp add: verify_args_def)
  from len have n: "length iterdata =
               (case parts_per_object map_job of
                  Some parts \<Rightarrow> if one_per then length parts else 1
                | None \<Rightarrow> 1)"
    by (simp add: length_reduce_iterdata)
  from calls b u(2,3,4) n tr1 show ?thesis by auto
qed

theorem reduce_total_calls_witness:
  "(\<exists>d tr'. demo_reduce_run True = (Inr (Descriptor d), tr') \<and> total_calls d = 2) \<and>
   (\<exists>d tr' evs. demo_reduce_run False = (Inr (Descriptor d), tr') \<and> total_calls d = 1
      \<and> map_result (bind_args demo_lib demo_reducer) [PList [PList demo_futures]]
           = Inr [PDict [(''results'', PList [PList demo_futures])]]
      \<and> data_ranges d = Some [(0, 3)]
      \<and> tr' = [PdbSetTrace, PutData ''pywren.jobs/ex/R000/aggdata.pickle'' ''OBJ''] @ evs)"
proof -
  from demo_reduce_run_returns obtain d1 t1 d2 t2 where
    r: "demo_reduce_run True = (Inr (Descriptor d1), t1)"
       "demo_reduce_run False = (Inr (Descriptor d2), t2)"
    by blast
  from reduce_total_calls [OF r(1) [unfolded demo_reduce_run_def]]
  have a: "total_calls d1 = 2" by (auto simp: demo_map_job_def)
  from reduce_total_calls [OF r(2) [unfolded demo_reduce_run_def]]
  obtain calls blobs evs where
    c: "map_result (bind_args demo_lib demo_reducer) [PList [PList demo_futures]] = Inr calls"
       "map_result (cloudpickle_dumps demo_lib) calls = Inr blobs"
       "total_calls d2 = 1"
       "data_ranges d2 = Some (agg_ranges 0 blobs)"
       "t2 = [] @ [PdbSetTrace,
                   PutData (create_agg_data_key demo_lib (JOBS_PREFIX demo_lib) ''ex'' ''R000'')
                     (concat blobs)] @ evs"
    by (auto simp: demo_map_job_def)
  from c(1) have calls: "calls = [PDict [(''results'', PList [PList demo_futures])]]"
    by (simp add: demo_lib_def)
  with c(2) have blobs: "blobs = [''OBJ'']"
    by (simp add: demo_lib_def)
  from c calls blobs have
    "map_result (bind_args demo_lib demo_reducer) [PList [PList demo_futures]]
           = Inr [PDict [(''results'', PList [PList demo_futures])]]"
    "data_ranges d2 = Some [(0, 3)]"
    "t2 = [PdbSetTrace, PutData ''pywren.jobs/ex/R000/aggdata.pickle'' ''OBJ''] @ evs"
    by (simp_all add: demo_lib_def)
  with a c(3) r show ?thesis by blast
qed

text \<open>
  C1, as the code has it. The check of line 201 compares the serialized size of the
  data alone with the ceiling, \<^verbatim>\<open>data_limit\<close> MiB, where \<^verbatim>\<open>data_limit\<close> is the
  configured value or \<^verbatim>\<open>MAX_AGG_DATA_SIZE\<close> when none is configured, and a limit of
  zero switches the check off. Both directions, for a call whose serializer returned:

  \<^item> When the limit is not zero and the data is larger than the ceiling, the call raises,
    and nothing has been uploaded, neither with \<^verbatim>\<open>put_data\<close> nor with
    \<^verbatim>\<open>put_func\<close>: it ends in the debugger stop of line 183 when the operator quits
    there, with the exception of \<^verbatim>\<open>create_module_data\<close> when that raises, and
    otherwise with the exception of line 204; the only event is the debugger stop.
  \<^item> When the limit is zero, or the data is not larger than the ceiling (equal
    included), and the steps before the check returned, the check passes: the next
    thing the call does is \<^verbatim>\<open>put_data\<close> of the aggregated data under the data key.
    When the storage raises, that exception ends the call; otherwise the upload is the
    first event after the debugger stop.
\<close>

theorem create_job_data_limit:
  assumes "data \<noteq> []"
    and "serializer lib pre (PFunc func # data)
           (snd (job_modules (pw_exclude_modules config) (pw_include_modules config) exc inc))
           (fst (job_modules (pw_exclude_modules config) (pw_include_modules config) exc inc))
          = Inr (strs, mods)"
    and "data_limit = (case pw_data_limit config of Some l \<Rightarrow> l | None \<Rightarrow> MAX_AGG_DATA_SIZE lib)"
  shows
    "(data_limit \<noteq> 0 \<and> data_limit * 1024 ^ 2 < int (sum_list (map length (tl strs)))
        \<longrightarrow> create_job lib w config ex jid func data pre rm env ipt inc exc et ts tr =
             (case fails w tr PdbSetTrace of
                Some quit \<Rightarrow> (Inl quit, tr)
              | None \<Rightarrow>
                  (case create_module_data lib mods of
                     Inl e \<Rightarrow> (Inl e, tr @ [PdbSetTrace])
                   | Inr module_data \<Rightarrow>
                       (Inl (PyException (''ExecutorID '' @ ex @ '' | JobID '' @ jid
                          @ '' - Total data exceeded maximum size of ''
                          @ sizeof_fmt lib (data_limit * 1024 ^ 2))),
                        tr @ [PdbSetTrace]))))
     \<and> ((data_limit = 0 \<or> int (sum_list (map length (tl strs))) \<le> data_limit * 1024 ^ 2)
          \<and> fails w tr PdbSetTrace = None \<and> create_module_data lib mods = Inr module_data
        \<longrightarrow> (case fails w (tr @ [PdbSetTrace])
                     (PutData (create_agg_data_key lib (JOBS_PREFIX lib) ex jid)
                        (concat (tl strs))) of
               Some e \<Rightarrow>
                 create_job lib w config ex jid func data pre rm env ipt inc exc et ts tr
                   = (Inl e, tr @ [PdbSetTrace])
             | None \<Rightarrow>
                 (\<exists>r evs.
                    create_job lib w config ex jid func data pre rm env ipt inc exc et ts tr
                      = (r, tr @ [PdbSetTrace,
                                  PutData (create_agg_data_key lib (JOBS_PREFIX lib) ex jid)
                                    (concat (tl strs))] @ evs))))"
proof -
  from serializer_length [OF assms(2)] have "strs \<noteq> []" by auto
  then obtain func_str data_strs where strs: "strs = func_str # data_strs"
    by (cases strs) auto
  obtain exc_modules inc_modules where
    m: "job_modules (pw_exclude_modules config) (pw_include_modules config) exc inc
          = (exc_modules, inc_modules)"
    by (cases "job_modules (pw_exclude_modules config) (pw_include_modules config) exc inc")
  have over: "data_limit \<noteq> 0 \<and> data_limit * 1024 ^ 2 < int (sum_list (map length (tl strs)))
        \<longrightarrow> create_job lib w config ex jid func data pre rm env ipt inc exc et ts tr =
             (case fails w tr PdbSetTrace of
                Some quit \<Rightarrow> (Inl quit, tr)
              | None \<Rightarrow>
                  (case create_module_data lib mods of
                     Inl e \<Rightarrow> (Inl e, tr @ [PdbSetTrace])
                   | Inr module_data \<Rightarrow>
                       (Inl (PyException (''ExecutorID '' @ ex @ '' | JobID '' @ jid
                          @ '' - Total data exceeded maximum size of ''
                          @ sizeof_fmt lib (data_limit * 1024 ^ 2))),
                        tr @ [PdbSetTrace])))"
    using assms strs m
    by (simp add: create_job_def Let_def io_defs split: option.splits sum.splits)
  have under: "(data_limit = 0 \<or> int (sum_list (map length (tl strs))) \<le> data_limit * 1024 ^ 2)
          \<and> fails w tr PdbSetTrace = None \<and> create_module_data lib mods = Inr module_data
        \<longrightarrow> (case fails w (tr @ [PdbSetTrace])
                     (PutData (create_agg_data_key lib (JOBS_PREFIX lib) ex jid)
                        (concat (tl strs))) of
               Some e \<Rightarrow>
                 create_job lib w config ex jid func data pre rm env ipt inc exc et ts tr
                   = (Inl e, tr @ [PdbSetTrace])
             | None \<Rightarrow>
                 (\<exists>r evs.
                    create_job lib w config ex jid func data pre rm env ipt inc exc et ts tr
                      = (r, tr @ [PdbSetTrace,
                                  PutData (create_agg_data_key lib (JOBS_PREFIX lib) ex jid)
                                    (concat (tl strs))] @ evs)))"
  proof (intro impI, elim conjE)
    assume ok: "data_limit = 0 \<or> int (sum_list (map length (tl strs))) \<le> data_limit * 1024 ^ 2"
      and pdb: "fails w tr PdbSetTrace = None"
      and md: "create_module_data lib mods = Inr module_data"
    let ?K = "create_agg_data_key lib (JOBS_PREFIX lib) ex jid"
    let ?B = "concat (tl strs)"
    let ?run = "create_job lib w config ex jid func data pre rm env ipt inc exc et ts tr"
    show "case fails w (tr @ [PdbSetTrace]) (PutData ?K ?B) of
            Some e \<Rightarrow> ?run = (Inl e, tr @ [PdbSetTrace])
          | None \<Rightarrow> (\<exists>r evs. ?run = (r, tr @ [PdbSetTrace, PutData ?K ?B] @ evs))"
    proof (cases "fails w (tr @ [PdbSetTrace]) (PutData ?K ?B)")
      case (Some e)
      with assms strs m ok pdb md show ?thesis
        by (auto simp: create_job_def Let_def io_defs agg_data_def)
    next
      case None
      with assms strs m ok pdb md show ?thesis
        by (auto simp: create_job_def Let_def io_defs agg_data_def
            split: prod.splits sum.splits dest!: inject_trace)
    qed
  qed
  from over under show ?thesis by blast
qed

theorem create_job_data_limit_witness:
  "create_job bulky_lib demo_world limit_config ''ex'' ''M000'' demo_func [PInt 1] []
       None None 128 (Some []) (Some []) None (Some 0) []
     = (Inl (PyException ''ExecutorID ex | JobID M000 - Total data exceeded maximum size of 1MiB''),
        [PdbSetTrace])
   \<and> (\<exists>r evs.
        create_job bulky_lib demo_world zero_config ''ex'' ''M000'' demo_func [PInt 1] []
          None None 128 (Some []) (Some []) None (Some 0) []
        = (r, [PdbSetTrace,
               PutData ''pywren.jobs/ex/M000/aggdata.pickle''
                 (replicate (2 * 1024 ^ 2) (CHR ''x''))] @ evs))
   \<and> (\<exists>r evs.
        create_job exact_lib demo_world limit_config ''ex'' ''M000'' demo_func [PInt 1] []
          None None 128 (Some []) (Some []) None (Some 0) []
        = (r, [PdbSetTrace,
               PutData ''pywren.jobs/ex/M000/aggdata.pickle''
                 (replicate (1024 ^ 2) (CHR ''x''))] @ evs))"
proof -
  have ne: "[PInt 1] \<noteq> []" by simp
  have pdb: "fails demo_world [] PdbSetTrace = None"
    by (simp add: demo_world_def demo_fails_def)
  have mods: "create_module_data bulky_lib [''/home/user/mymod''] = Inr (PDict [])"
    "create_module_data exact_lib [''/home/user/mymod''] = Inr (PDict [])"
    by (simp_all add: bulky_lib_def exact_lib_def demo_lib_def)
  have key: "create_agg_data_key bulky_lib (JOBS_PREFIX bulky_lib) ''ex'' ''M000''
               = ''pywren.jobs/ex/M000/aggdata.pickle''"
    "create_agg_data_key exact_lib (JOBS_PREFIX exact_lib) ''ex'' ''M000''
               = ''pywren.jobs/ex/M000/aggdata.pickle''"
    by (simp_all add: bulky_lib_def exact_lib_def demo_lib_def)
  have put: "fails demo_world ([] @ [PdbSetTrace]) (PutData k b) = None" for k b
    by (simp add: demo_world_def demo_fails_def)
  \<comment> \<open>over the ceiling of one MiB\<close>
  have s1: "serializer bulky_lib [] (PFunc demo_func # [PInt 1])
           (snd (job_modules (pw_exclude_modules limit_config) (pw_include_modules limit_config)
              (Some []) (Some [])))
           (fst (job_modules (pw_exclude_modules limit_config) (pw_include_modules limit_config)
              (Some []) (Some [])))
          = Inr ([replicate (2 * 1024 ^ 2) (CHR ''x''), replicate (2 * 1024 ^ 2) (CHR ''x'')],
                 [''/home/user/mymod''])"
    by (simp add: serializer_def bulky_lib_def demo_lib_def limit_config_def demo_config_def
        job_modules_def items_def)
  have l1: "(1::int) = (case pw_data_limit limit_config of Some l \<Rightarrow> l
                       | None \<Rightarrow> MAX_AGG_DATA_SIZE bulky_lib)"
    by (simp add: limit_config_def)
  have fmt: "sizeof_fmt bulky_lib (1 * 1024 ^ 2) = ''1MiB''"
    by (simp add: bulky_lib_def demo_lib_def str_int_1)
  from create_job_data_limit [OF ne s1 l1, where w = demo_world and ex = "''ex''"
      and jid = "''M000''" and rm = None and env = None and ipt = 128 and et = None
      and ts = "Some 0" and tr = "[]"] pdb mods fmt
  have a: "create_job bulky_lib demo_world limit_config ''ex'' ''M000'' demo_func [PInt 1] []
       None None 128 (Some []) (Some []) None (Some 0) []
     = (Inl (PyException ''ExecutorID ex | JobID M000 - Total data exceeded maximum size of 1MiB''),
        [PdbSetTrace])"
    by simp
  \<comment> \<open>a limit of zero\<close>
  have s2: "serializer bulky_lib [] (PFunc demo_func # [PInt 1])
           (snd (job_modules (pw_exclude_modules zero_config) (pw_include_modules zero_config)
              (Some []) (Some [])))
           (fst (job_modules (pw_exclude_modules zero_config) (pw_include_modules zero_config)
              (Some []) (Some [])))
          = Inr ([replicate (2 * 1024 ^ 2) (CHR ''x''), replicate (2 * 1024 ^ 2) (CHR ''x'')],
                 [''/home/user/mymod''])"
    by (simp add: serializer_def bulky_lib_def demo_lib_def zero_config_def demo_config_def
        job_modules_def items_def)
  have l2: "(0::int) = (case pw_data_limit zero_config of Some l \<Rightarrow> l
                       | None \<Rightarrow> MAX_AGG_DATA_SIZE bulky_lib)"
    by (simp add: zero_config_def)
  from create_job_data_limit [OF ne s2 l2, where w = demo_world and ex = "''ex''"
      and jid = "''M000''" and rm = None and env = None and ipt = 128 and et = None
      and ts = "Some 0" and tr = "[]" and module_data = "PDict []"] pdb mods key put
  have b: "\<exists>r evs.
        create_job bulky_lib demo_world zero_config ''ex'' ''M000'' demo_func [PInt 1] []
          None None 128 (Some []) (Some []) None (Some 0) []
        = (r, [PdbSetTrace,
               PutData ''pywren.jobs/ex/M000/aggdata.pickle''
                 (replicate (2 * 1024 ^ 2) (CHR ''x''))] @ evs)"
    by simp
  \<comment> \<open>exactly the ceiling of one MiB\<close>
  have s3: "serializer exact_lib [] (PFunc demo_func # [PInt 1])
           (snd (job_modules (pw_exclude_modules limit_config) (pw_include_modules limit_config)
              (Some []) (Some [])))
           (fst (job_modules (pw_exclude_modules limit_config) (pw_include_modules limit_config)
              (Some []) (Some [])))
          = Inr ([replicate (1024 ^ 2) (CHR ''x''), replicate (1024 ^ 2) (CHR ''x'')],
                 [''/home/user/mymod''])"
    by (simp add: serializer_def exact_lib_def demo_lib_def limit_config_def demo_config_def
        job_modules_def items_def)
  have l3: "(1::int) = (case pw_data_limit limit_config of Some l \<Rightarrow> l
                       | None \<Rightarrow> MAX_AGG_DATA_SIZE exact_lib)"
    by (simp add: limit_config_def)
  from create_job_data_limit [OF ne s3 l3, where w = demo_world and ex = "''ex''"
      and jid = "''M000''" and rm = None and env = None and ipt = 128 and et = None
      and ts = "Some 0" and tr = "[]" and module_data = "PDict []"] pdb mods key put
  have c: "\<exists>r evs.
        create_job exact_lib demo_world limit_config ''ex'' ''M000'' demo_func [PInt 1] []
          None None 128 (Some []) (Some []) None (Some 0) []
        = (r, [PdbSetTrace,
               PutData ''pywren.jobs/ex/M000/aggdata.pickle''
                 (replicate (1024 ^ 2) (CHR ''x''))] @ evs)"
    by simp
  from a b c show ?thesis by blast
qed

text \<open>
  C1 as stated fails, twice. With a ceiling of one MiB, three bytes of data and a
  function and modules blob of two MiB, the combined size is over the ceiling, yet the
  call returns a descriptor and the data has been uploaded. And with a configured limit
  of zero, three bytes of data are over the ceiling of zero bytes, yet the call returns
  a descriptor and the data has been uploaded.
\<close>

theorem create_job_combined_size_counterexample:
  "create_job heavy_lib demo_world limit_config ''ex'' ''M000'' demo_func
       [PInt 1, PInt 2, PInt 3] [] None None 128 (Some []) (Some []) None (Some 0) [] =
    (Inr (Descriptor
        \<lparr>runtime_name = ''python3.6:md5-def f'', runtime_memory = 256,
         execution_timeout = 595, function_name = ''f'', extra_env = [], total_calls = 3,
         invoke_pool_threads = 128, executor_id = ''ex'', job_id = ''M000'',
         data_key = Some ''pywren.jobs/ex/M000/aggdata.pickle'',
         data_ranges = Some [(0, 1), (1, 1), (2, 1)],
         func_key = Some ''pywren.jobs/ex/M000/func.pickle'',
         metadata =
           Some \<lparr>job_created_tstamp = Some 0, data_size_bytes = 3,
                 func_module_size_bytes = 2097152, data_upload_time = 1, func_upload_time = 9\<rparr>,
         parts_per_object = None\<rparr>),
     [PdbSetTrace, PutData ''pywren.jobs/ex/M000/aggdata.pickle'' ''III'',
      TempDirCreate ''ext_mod_path'',
      CopyTree ''/home/user/mymod'' ''ext_mod_path/mymod'',
      OpenFile ''ext_mod_path/md5-def f.py'' ''w'',
      WriteFile ''ext_mod_path/md5-def f.py'' ''def f(x): return x*2'',
      OpenFile ''custom.dockerfile'' ''w'',
      WriteFile ''custom.dockerfile''
        (''FROM python3.6'' @ [CHR 0x0A] @ ''ENV PYTHONPATH=ext_mod_path:$PYTHONPATH''
           @ [CHR 0x0A] @ ''COPY ext_mod_path ext_mod_path''),
      TempDirCleanup ''ext_mod_path'', PdbSetTrace,
      BuildAndCreateRuntime ''python3.6:md5-def f'' ''custom.dockerfile''])
   \<and> pw_data_limit limit_config = Some 1
   \<and> (1::int) * 1024 ^ 2 < 3 + 2097152
   \<and> create_job demo_lib demo_world zero_config ''ex'' ''M000'' demo_func
       [PInt 1, PInt 2, PInt 3] [] None None 128 (Some []) (Some []) None (Some 0) [] =
    (Inr (Descriptor
        \<lparr>runtime_name = ''python3.6:md5-def f'', runtime_memory = 256,
         execution_timeout = 595, function_name = ''f'', extra_env = [], total_calls = 3,
         invoke_pool_threads = 128, executor_id = ''ex'', job_id = ''M000'',
         data_key = Some ''pywren.jobs/ex/M000/aggdata.pickle'',
         data_ranges = Some [(0, 1), (1, 1), (2, 1)],
         func_key = Some ''pywren.jobs/ex/M000/func.pickle'',
         metadata =
           Some \<lparr>job_created_tstamp = Some 0, data_size_bytes = 3,
                 func_module_size_bytes = 3, data_upload_time = 1, func_upload_time = 9\<rparr>,
         parts_per_object = None\<rparr>),
     [PdbSetTrace, PutData ''pywren.jobs/ex/M000/aggdata.pickle'' ''III'',
      TempDirCreate ''ext_mod_path'',
      CopyTree ''/home/user/mymod'' ''ext_mod_path/mymod'',
      OpenFile ''ext_mod_path/md5-def f.py'' ''w'',
      WriteFile ''ext_mod_path/md5-def f.py'' ''def f(x): return x*2'',
      OpenFile ''custom.dockerfile'' ''w'',
      WriteFile ''custom.dockerfile''
        (''FROM python3.6'' @ [CHR 0x0A] @ ''ENV PYTHONPATH=ext_mod_path:$PYTHONPATH''
           @ [CHR 0x0A] @ ''COPY ext_mod_path ext_mod_path''),
      TempDirCleanup ''ext_mod_path'', PdbSetTrace,
      BuildAndCreateRuntime ''python3.6:md5-def f'' ''custom.dockerfile''])
   \<and> pw_data_limit zero_config = Some 0
   \<and> (0::int) * 1024 ^ 2 < 3 + 3"
  by (simp add: heavy_lib_def limit_config_def zero_config_def job_defs io_defs demo_defs)

text \<open>
  C2, on the code. The delivery step of line 226 tests the constant \<^verbatim>\<open>False\<close>: for
  the default configuration with the plain runtime \<^verbatim>\<open>python3.6\<close> the function is not
  uploaded under the function key (no \<^verbatim>\<open>put_func\<close> is among the events); it is
  staged into an extension image tagged with the hash of its source, the image is
  built, and the runtime name of the descriptor is rewritten to it.
\<close>

theorem create_job_stages_plain_runtime:
  "create_job demo_lib demo_world demo_config ''ex'' ''M000'' demo_func
       [PInt 1, PInt 2, PInt 3] [] None None 128 (Some []) (Some []) None (Some 0) [] =
    (Inr (Descriptor
        \<lparr>runtime_name = ''python3.6:md5-def f'', runtime_memory = 256,
         execution_timeout = 595, function_name = ''f'', extra_env = [], total_calls = 3,
         invoke_pool_threads = 128, executor_id = ''ex'', job_id = ''M000'',
         data_key = Some ''pywren.jobs/ex/M000/aggdata.pickle'',
         data_ranges = Some [(0, 1), (1, 1), (2, 1)],
         func_key = Some ''pywren.jobs/ex/M000/func.pickle'',
         metadata =
           Some \<lparr>job_created_tstamp = Some 0, data_size_bytes = 3,
                 func_module_size_bytes = 3, data_upload_time = 1, func_upload_time = 9\<rparr>,
         parts_per_object = None\<rparr>),
     [PdbSetTrace, PutData ''pywren.jobs/ex/M000/aggdata.pickle'' ''III'',
      TempDirCreate ''ext_mod_path'',
      CopyTree ''/home/user/mymod'' ''ext_mod_path/mymod'',
      OpenFile ''ext_mod_path/md5-def f.py'' ''w'',
      WriteFile ''ext_mod_path/md5-def f.py'' ''def f(x): return x*2'',
      OpenFile ''custom.dockerfile'' ''w'',
      WriteFile ''custom.dockerfile''
        (''FROM python3.6'' @ [CHR 0x0A] @ ''ENV PYTHONPATH=ext_mod_path:$PYTHONPATH''
           @ [CHR 0x0A] @ ''COPY ext_mod_path ext_mod_path''),
      TempDirCleanup ''ext_mod_path'', PdbSetTrace,
      BuildAndCreateRuntime ''python3.6:md5-def f'' ''custom.dockerfile''])"
  using demo_run_value by (simp add: demo_run_def)

text \<open>
  C3, on the code. Every descriptor that \<^verbatim>\<open>_create_job\<close> returns carries both keys.
  The data key is the key under which \<^verbatim>\<open>put_data\<close> has stored the aggregated data,
  right after the debugger stop. The function key is carried although no
  \<^verbatim>\<open>put_func\<close> has been performed: the events of the call contain none.
\<close>

theorem returned_keys_and_uploads:
  assumes "create_job lib w config ex jid func data pre rm env ipt inc exc et ts tr
             = (Inr (Descriptor d), tr')"
  shows "\<exists>data_bytes evs.
           data_key d = Some (create_agg_data_key lib (JOBS_PREFIX lib) ex jid)
           \<and> func_key d = Some (create_func_key lib (JOBS_PREFIX lib) ex jid)
           \<and> tr' = tr @ [PdbSetTrace,
                          PutData (create_agg_data_key lib (JOBS_PREFIX lib) ex jid) data_bytes]
                       @ evs
           \<and> list_all not_put_func evs"
  using create_job_uploads [OF assms] by blast

theorem returned_keys_and_uploads_witness:
  "\<exists>d tr'. demo_run = (Inr (Descriptor d), tr')
      \<and> func_key d = Some ''pywren.jobs/ex/M000/func.pickle''
      \<and> data_key d = Some ''pywren.jobs/ex/M000/aggdata.pickle''
      \<and> list_all not_put_func tr'
      \<and> PutData ''pywren.jobs/ex/M000/aggdata.pickle'' ''III'' \<in> set tr'"
proof -
  obtain d tr' where run: "demo_run = (Inr (Descriptor d), tr')"
    by (simp add: demo_run_value)
  from returned_keys_and_uploads [OF run [unfolded demo_run_def]]
  obtain data_bytes evs where
    k: "data_key d = Some (create_agg_data_key demo_lib (JOBS_PREFIX demo_lib) ''ex'' ''M000'')"
       "func_key d = Some (create_func_key demo_lib (JOBS_PREFIX demo_lib) ''ex'' ''M000'')"
    and t: "tr' = [] @ [PdbSetTrace,
              PutData (create_agg_data_key demo_lib (JOBS_PREFIX demo_lib) ''ex'' ''M000'')
                data_bytes] @ evs"
       "list_all not_put_func evs"
    by blast
  from t have "list_all not_put_func tr'" by simp
  moreover from run have "PutData ''pywren.jobs/ex/M000/aggdata.pickle'' ''III'' \<in> set tr'"
    by (auto simp: demo_run_value)
  moreover from k have "func_key d = Some ''pywren.jobs/ex/M000/func.pickle''"
    "data_key d = Some ''pywren.jobs/ex/M000/aggdata.pickle''"
    by (simp_all add: demo_lib_def)
  ultimately show ?thesis using run by blast
qed

text \<open>
  C7. The tag that \<^verbatim>\<open>_inject_in_runtime_docker_image\<close> returns is the MD5 digest of
  the source of the function and of nothing else. Two calls that return, for functions
  with the same source, both return the digest of that source, hence the same tag,
  whatever the worlds, the histories, the modules and the job descriptions (their base
  runtimes included) are. Each call names its extension image after its base runtime
  and that tag, builds that image last, and writes its name into the description; so
  with the same base runtime the two calls name and build the same image.
\<close>

theorem image_tag_deterministic:
  assumes "inject_in_runtime_docker_image lib w1 jd1 f1 mods1 tr1 = (Inr (tag1, jd1'), tr1')"
    and "inject_in_runtime_docker_image lib w2 jd2 f2 mods2 tr2 = (Inr (tag2, jd2'), tr2')"
    and "func_source f1 = func_source f2"
  shows "\<exists>src. func_source f1 = Some src
           \<and> tag1 = md5_hexdigest lib src \<and> tag2 = md5_hexdigest lib src \<and> tag1 = tag2
           \<and> runtime_name jd1' = runtime_name jd1 @ '':'' @ md5_hexdigest lib src
           \<and> runtime_name jd2' = runtime_name jd2 @ '':'' @ md5_hexdigest lib src
           \<and> last tr1' = BuildAndCreateRuntime
                 (runtime_name jd1 @ '':'' @ md5_hexdigest lib src) ''custom.dockerfile''
           \<and> last tr2' = BuildAndCreateRuntime
                 (runtime_name jd2 @ '':'' @ md5_hexdigest lib src) ''custom.dockerfile''"
proof -
  from inject_result [OF assms(1)] obtain src where
    1: "func_source f1 = Some src" "tag1 = md5_hexdigest lib src"
       "jd1' = jd1\<lparr>runtime_name := runtime_name jd1 @ '':'' @ tag1\<rparr>"
    by blast
  from inject_result [OF assms(2)] assms(3) 1(1) have
    2: "tag2 = md5_hexdigest lib src"
       "jd2' = jd2\<lparr>runtime_name := runtime_name jd2 @ '':'' @ tag2\<rparr>"
    by auto
  from inject_built [OF assms(1)] inject_built [OF assms(2)] 1 2
  show ?thesis by auto
qed

theorem image_tag_deterministic_witness:
  "\<exists>jd1' tr1' jd2' tr2'.
      inject_in_runtime_docker_image demo_lib demo_world demo_map_job demo_func
        [''/home/user/mymod''] []
        = (Inr (''md5-def f'', jd1'), tr1')
    \<and> inject_in_runtime_docker_image demo_lib demo_world_stale
         (demo_map_job\<lparr>runtime_name := ''python3.7'', job_id := ''M001''\<rparr>)
         (demo_func\<lparr>func_name := ''g''\<rparr>)
         [''/home/user/mymod'', ''/home/user/helper.py''] [PdbSetTrace]
        = (Inr (''md5-def f'', jd2'), tr2')
    \<and> runtime_name jd1' = ''python3.6:md5-def f''
    \<and> runtime_name jd2' = ''python3.7:md5-def f''
    \<and> last tr1' = BuildAndCreateRuntime ''python3.6:md5-def f'' ''custom.dockerfile''
    \<and> last tr2' = BuildAndCreateRuntime ''python3.7:md5-def f'' ''custom.dockerfile''"
proof -
  obtain tag1 jd1' tr1' where
    1: "inject_in_runtime_docker_image demo_lib demo_world demo_map_job demo_func
          [''/home/user/mymod''] []
          = (Inr (tag1, jd1'), tr1')"
    by (simp add: inject_defs io_defs demo_defs demo_map_job_def)
  obtain tag2 jd2' tr2' where
    2: "inject_in_runtime_docker_image demo_lib demo_world_stale
         (demo_map_job\<lparr>runtime_name := ''python3.7'', job_id := ''M001''\<rparr>)
         (demo_func\<lparr>func_name := ''g''\<rparr>)
         [''/home/user/mymod'', ''/home/user/helper.py''] [PdbSetTrace]
          = (Inr (tag2, jd2'), tr2')"
    by (simp add: inject_defs io_defs demo_defs demo_map_job_def demo_world_stale_def)
  have 3: "func_source demo_func = func_source (demo_func\<lparr>func_name := ''g''\<rparr>)"
    by simp
  have 4: "func_source demo_func = Some ''def f(x): return x*2''"
    "md5_hexdigest demo_lib ''def f(x): return x*2'' = ''md5-def f''"
    "runtime_name demo_map_job = ''python3.6''"
    by (simp_all add: demo_func_def demo_lib_def demo_map_job_def)
  from image_tag_deterministic [OF 1 2 3] 4 have
    "tag1 = ''md5-def f''" "tag2 = ''md5-def f''"
    "runtime_name jd1' = ''python3.6:md5-def f''"
    "runtime_name jd2' = ''python3.7:md5-def f''"
    "last tr1' = BuildAndCreateRuntime ''python3.6:md5-def f'' ''custom.dockerfile''"
    "last tr2' = BuildAndCreateRuntime ''python3.7:md5-def f'' ''custom.dockerfile''"
    by auto
  with 1 2 show ?thesis by blast
qed

text \<open>
  C8. \<^verbatim>\<open>Compute.__init__\<close> hands every failure to resolve the backend to the caller
  as it is: a failing import of the module named after the configured backend, a module
  without \<^verbatim>\<open>ComputeBackend\<close>, a configuration without the backend's section, and a
  failing constructor. When it returns a dispatcher, its handler is the one built by the
  constructor of the configured backend's module from the backend's section: there is no
  other source of a handler.
\<close>

theorem Compute_init_no_fallback:
  fixes import_module :: "string \<Rightarrow> error + 'h backend_module"
  shows
  "(\<forall>e. import_module (''pywren_ibm_cloud.compute.backends.'' @ cc_backend cfg) = Inl e
       \<longrightarrow> Compute_init os_getenv import_module cfg = Inl e)
   \<and> (\<forall>m. import_module (''pywren_ibm_cloud.compute.backends.'' @ cc_backend cfg) = Inr m
          \<and> ComputeBackend m = None
       \<longrightarrow> Compute_init os_getenv import_module cfg = Inl (AttributeError ''ComputeBackend''))
   \<and> (\<forall>m ctor. import_module (''pywren_ibm_cloud.compute.backends.'' @ cc_backend cfg) = Inr m
          \<and> ComputeBackend m = Some ctor \<and> cc_section cfg (cc_backend cfg) = None
       \<longrightarrow> Compute_init os_getenv import_module cfg = Inl (KeyError (cc_backend cfg)))
   \<and> (\<forall>m ctor section e.
          import_module (''pywren_ibm_cloud.compute.backends.'' @ cc_backend cfg) = Inr m
          \<and> ComputeBackend m = Some ctor \<and> cc_section cfg (cc_backend cfg) = Some section
          \<and> ctor section = Inl e
       \<longrightarrow> Compute_init os_getenv import_module cfg = Inl e)
   \<and> (\<forall>c. Compute_init os_getenv import_module cfg = Inr c
       \<longrightarrow> (\<exists>m ctor section handler.
              import_module (''pywren_ibm_cloud.compute.backends.'' @ cc_backend cfg) = Inr m
              \<and> ComputeBackend m = Some ctor \<and> cc_section cfg (cc_backend cfg) = Some section
              \<and> ctor section = Inr handler
              \<and> compute_handler c = Some handler \<and> backend c = cc_backend cfg))"
  by (auto simp: Compute_init_def Let_def split: sum.splits option.splits)

theorem Compute_init_no_fallback_witness:
  "Compute_init (getenv demo_world) demo_import (demo_compute_config ''aws_lambda'')
     = Inl (External ''ModuleNotFoundError'')
   \<and> Compute_init (getenv demo_world) demo_import (demo_compute_config ''knative'')
     = Inl (External ''no kubernetes cluster'')
   \<and> (\<exists>c. Compute_init (getenv demo_world) demo_import (demo_compute_config ''ibm_cf'') = Inr c
          \<and> compute_handler c = Some ''ibm_cf handler'' \<and> backend c = ''ibm_cf'')"
proof -
  have 1: "demo_import (''pywren_ibm_cloud.compute.backends.''
             @ cc_backend (demo_compute_config ''aws_lambda'')) = Inl (External ''ModuleNotFoundError'')"
    by (simp add: demo_import_def demo_compute_config_def)
  have 2: "demo_import (''pywren_ibm_cloud.compute.backends.''
             @ cc_backend (demo_compute_config ''knative''))
           = Inr \<lparr>ComputeBackend = Some (\<lambda>section. Inl (External ''no kubernetes cluster''))\<rparr>"
    by (simp add: demo_import_def demo_compute_config_def)
  have 3: "cc_section (demo_compute_config ''knative'') (cc_backend (demo_compute_config ''knative''))
           = Some (PDict [])"
    by (simp add: demo_compute_config_def)
  obtain c where 4: "Compute_init (getenv demo_world) demo_import (demo_compute_config ''ibm_cf'') = Inr c"
    by (simp add: Compute_init_def demo_import_def demo_compute_config_def)
  have 5: "demo_import (''pywren_ibm_cloud.compute.backends.''
             @ cc_backend (demo_compute_config ''ibm_cf''))
           = Inr \<lparr>ComputeBackend = Some (\<lambda>section. Inr ''ibm_cf handler'')\<rparr>"
    by (simp add: demo_import_def demo_compute_config_def)
  have 6: "cc_backend (demo_compute_config ''ibm_cf'') = ''ibm_cf''"
    by (simp add: demo_compute_config_def)
  note t1 = Compute_init_no_fallback
    [of demo_import "demo_compute_config ''aws_lambda''" "getenv demo_world"]
  note t2 = Compute_init_no_fallback
    [of demo_import "demo_compute_config ''knative''" "getenv demo_world"]
  note t3 = Compute_init_no_fallback
    [of demo_import "demo_compute_config ''ibm_cf''" "getenv demo_world"]
  from t1 1 have a:
    "Compute_init (getenv demo_world) demo_import (demo_compute_config ''aws_lambda'')
       = Inl (External ''ModuleNotFoundError'')"
    by blast
  from t2 2 3 have b:
    "Compute_init (getenv demo_world) demo_import (demo_compute_config ''knative'')
       = Inl (External ''no kubernetes cluster'')"
    by auto
  from t3 4 5 6 have c: "compute_handler c = Some ''ibm_cf handler'' \<and> backend c = ''ibm_cf''"
    by auto
  from a b c 4 show ?thesis by blast
qed

text \<open>
  C9. When \<^verbatim>\<open>run_job\<close> returns, the events it added are, in this order: the job
  directory made, the file \<^verbatim>\<open>job.json\<close> in it opened for writing, the JSON document
  of the whole payload written to it, the log file opened for appending, and the
  execution command launched on that file. The file is the join of the storage
  directory, the bucket, the jobs prefix, the executor id, the job id and
  \<^verbatim>\<open>job.json\<close>. When \<^verbatim>\<open>run_job\<close> raises, no command has been launched. So no
  invocation launches the command before the payload is in the file.
\<close>

theorem run_job_writes_then_launches:
  assumes "run_job L w self payload tr = (r, tr')"
  shows "case r of
           Inr u \<Rightarrow>
             (\<exists>cmd document.
                get_execution_cmd L w (lh_env self) (jp_runtime_name payload) tr = (Inr cmd, tr)
                \<and> json_dumps L payload = Inr document
                \<and> tr' = tr @
                    [MakeDirs (os_path_join (STORAGE_DIR L)
                       [jp_storage_bucket payload, LH_JOBS_PREFIX L, jp_executor_id payload,
                        jp_job_id payload]),
                     OpenFile (os_path_join (STORAGE_DIR L)
                       [jp_storage_bucket payload, LH_JOBS_PREFIX L, jp_executor_id payload,
                        jp_job_id payload, ''job.json'']) ''w'',
                     WriteFile (os_path_join (STORAGE_DIR L)
                       [jp_storage_bucket payload, LH_JOBS_PREFIX L, jp_executor_id payload,
                        jp_job_id payload, ''job.json'']) document,
                     OpenFile (os_path_join (STORAGE_DIR L) [''local_handler.log'']) ''a'',
                     Popen (cmd @ '' run '' @ os_path_join (STORAGE_DIR L)
                       [jp_storage_bucket payload, LH_JOBS_PREFIX L, jp_executor_id payload,
                        jp_job_id payload, ''job.json''])
                       (os_path_join (STORAGE_DIR L) [''local_handler.log''])])
         | Inl e \<Rightarrow> (\<exists>evs. tr' = tr @ evs \<and> (\<forall>c l. Popen c l \<notin> set evs))"
proof -
  obtain rc trc where
    g: "get_execution_cmd L w (lh_env self) (jp_runtime_name payload) tr = (rc, trc)"
    by (cases "get_execution_cmd L w (lh_env self) (jp_runtime_name payload) tr")
  from get_execution_cmd_pure [OF g] have trc: "trc = tr" .
  show ?thesis
    using assms g trc
    by (auto simp: run_job_def Let_def then_do_def perform_def lift_def job_file_path
        split: sum.splits option.splits prod.splits if_splits)
qed

theorem run_job_writes_then_launches_witness:
  "run_job demo_lithops demo_world (LocalhostHandler_init demo_lithops None) demo_payload []
     = (Inr (),
        [MakeDirs ''/tmp/lithops/storage/lithops.jobs/ex/M000'',
         OpenFile ''/tmp/lithops/storage/lithops.jobs/ex/M000/job.json'' ''w'',
         WriteFile ''/tmp/lithops/storage/lithops.jobs/ex/M000/job.json''
           ''{executor_id: ex, job_id: M000}'',
         OpenFile ''/tmp/lithops/local_handler.log'' ''a'',
         Popen (''/usr/bin/python3 /tmp/lithops/local_handler.py run ''
                  @ ''/tmp/lithops/storage/lithops.jobs/ex/M000/job.json'')
           ''/tmp/lithops/local_handler.log''])"
proof -
  obtain tr' where
    run: "run_job demo_lithops demo_world (LocalhostHandler_init demo_lithops None) demo_payload []
            = (Inr (), tr')"
    by (simp add: run_job_def LocalhostHandler_init_def demo_lithops_def demo_world_def
        demo_fails_def demo_payload_def os_path_join_def join2_def io_defs Let_def)
  have cmd: "get_execution_cmd demo_lithops demo_world
               (lh_env (LocalhostHandler_init demo_lithops None)) (jp_runtime_name demo_payload) []
             = (Inr ''/usr/bin/python3 /tmp/lithops/local_handler.py'', [])"
    by (simp add: LocalhostHandler_init_def demo_lithops_def HANDLER_FILE_def
        LOCAL_HANDLER_NAME_def os_path_join_def join2_def return_def)
  have doc: "json_dumps demo_lithops demo_payload = Inr ''{executor_id: ex, job_id: M000}''"
    by (simp add: demo_lithops_def demo_payload_def)
  have paths:
    "os_path_join (STORAGE_DIR demo_lithops)
       [jp_storage_bucket demo_payload, LH_JOBS_PREFIX demo_lithops,
        jp_executor_id demo_payload, jp_job_id demo_payload]
       = ''/tmp/lithops/storage/lithops.jobs/ex/M000''"
    "os_path_join (STORAGE_DIR demo_lithops)
       [jp_storage_bucket demo_payload, LH_JOBS_PREFIX demo_lithops,
        jp_executor_id demo_payload, jp_job_id demo_payload, ''job.json'']
       = ''/tmp/lithops/storage/lithops.jobs/ex/M000/job.json''"
    "os_path_join (STORAGE_DIR demo_lithops) [''local_handler.log'']
       = ''/tmp/lithops/local_handler.log''"
    by (simp_all add: demo_lithops_def demo_payload_def os_path_join_def join2_def)
  from run_job_writes_then_launches [OF run] cmd doc
  have "tr' =
        [MakeDirs ''/tmp/lithops/storage/lithops.jobs/ex/M000'',
         OpenFile ''/tmp/lithops/storage/lithops.jobs/ex/M000/job.json'' ''w'',
         WriteFile ''/tmp/lithops/storage/lithops.jobs/ex/M000/job.json''
           ''{executor_id: ex, job_id: M000}'',
         OpenFile ''/tmp/lithops/local_handler.log'' ''a'',
         Popen (''/usr/bin/python3 /tmp/lithops/local_handler.py run ''
                  @ ''/tmp/lithops/storage/lithops.jobs/ex/M000/job.json'')
           ''/tmp/lithops/local_handler.log'']"
    by (simp add: paths)
  with run show ?thesis by simp
qed

end
